theory Spec2Isabelle
  imports Main "HOL-Library.Sublist" "HOL-Library.Char_ord" "HOL-Library.List_Lexorder"
begin

section \<open>The Windows installers of the Courier Management System\<close>

text \<open>
  The repository holds three installer scripts, each defining a class
  \<^verbatim>\<open>CourierInstaller\<close> with methods of the same names:
  \<^item> \<^verbatim>\<open>windows_installer.py\<close>, whose definitions carry the prefix \<open>wi_\<close> here;
  \<^item> \<^verbatim>\<open>windows_installer_complete.py\<close>, prefix \<open>wic_\<close>;
  \<^item> \<^verbatim>\<open>windows_installer_fixed.py\<close>, prefix \<open>wif_\<close>.

  A method becomes a function from the machine state before the call to its result and
  the machine state after it. Whatever the scripts obtain from outside (the outcome of
  a child process, what the user types, what the file system holds) is read from a
  \<open>world\<close>, which is a parameter of every function: a theorem for all worlds is a
  theorem for every behaviour of the tools the scripts drive.

  Strings are byte strings. The pictographs of the console messages, with the blank
  that follows one, are left out of the message texts; nothing else is.
\<close>

subsection \<open>Python strings\<close>

definition dq :: string where
  "dq = [CHR 0x22]"

definition nl :: string where
  "nl = [CHR 0x0A]"

definition bs :: string where
  "bs = [CHR 0x5C]"

definition sq :: string where
  "sq = [CHR 0x27]"

text \<open>\<^verbatim>\<open>str.strip()\<close> drops white space at both ends. In the UTF-8 bytes of a string,
  white space is a byte with one of the codes 9 to 13, 28 to 31 and 32, the two bytes of
  U+0085 or U+00A0, or the three bytes of U+1680, U+2000 to U+200A, U+2028, U+2029,
  U+202F, U+205F or U+3000.\<close>

definition is_space :: "char \<Rightarrow> bool" where
  "is_space c = (let n = (of_char c :: nat) in (9 \<le> n \<and> n \<le> 13) \<or> (28 \<le> n \<and> n \<le> 32))"

definition is_space2 :: "char \<Rightarrow> char \<Rightarrow> bool" where
  "is_space2 a b = (a = CHR 0xC2 \<and> (b = CHR 0x85 \<or> b = CHR 0xA0))"

definition is_space3 :: "char \<Rightarrow> char \<Rightarrow> char \<Rightarrow> bool" where
  "is_space3 a b c =
     ((a = CHR 0xE1 \<and> b = CHR 0x9A \<and> c = CHR 0x80)
      \<or> (a = CHR 0xE2 \<and> b = CHR 0x80
          \<and> (let n = (of_char c :: nat)
              in (128 \<le> n \<and> n \<le> 138) \<or> n = 168 \<or> n = 169 \<or> n = 175))
      \<or> (a = CHR 0xE2 \<and> b = CHR 0x81 \<and> c = CHR 0x9F)
      \<or> (a = CHR 0xE3 \<and> b = CHR 0x80 \<and> c = CHR 0x80))"

fun lstrip :: "string \<Rightarrow> string" where
  "lstrip (a # b # c # s) =
     (if is_space a then lstrip (b # c # s)
      else if is_space2 a b then lstrip (c # s)
      else if is_space3 a b c then lstrip s
      else a # b # c # s)"
| "lstrip [a, b] =
     (if is_space a then lstrip [b] else if is_space2 a b then [] else [a, b])"
| "lstrip [a] = (if is_space a then [] else [a])"
| "lstrip [] = []"

text \<open>The same from the other end, on the reversed string.\<close>

fun lstrip_reversed :: "string \<Rightarrow> string" where
  "lstrip_reversed (c # b # a # s) =
     (if is_space c then lstrip_reversed (b # a # s)
      else if is_space2 b c then lstrip_reversed (a # s)
      else if is_space3 a b c then lstrip_reversed s
      else c # b # a # s)"
| "lstrip_reversed [b, a] =
     (if is_space b then lstrip_reversed [a] else if is_space2 a b then [] else [b, a])"
| "lstrip_reversed [a] = (if is_space a then [] else [a])"
| "lstrip_reversed [] = []"

definition strip :: "string \<Rightarrow> string" where
  "strip s = rev (lstrip_reversed (rev (lstrip s)))"

text \<open>\<^verbatim>\<open>str.lower()\<close> on the letters A to Z.\<close>

definition lower_char :: "char \<Rightarrow> char" where
  "lower_char c = (let n = (of_char c :: nat) in if 65 \<le> n \<and> n \<le> 90 then char_of (n + 32) else c)"

definition lower :: "string \<Rightarrow> string" where
  "lower s = map lower_char s"

text \<open>\<^verbatim>\<open>sub in s\<close> on strings: \<open>sub\<close> occurs in \<open>s\<close> as a contiguous piece.\<close>

fun str_in :: "string \<Rightarrow> string \<Rightarrow> bool" where
  "str_in sub [] = (sub = [])"
| "str_in sub (c # cs) = (prefix sub (c # cs) \<or> str_in sub cs)"

text \<open>\<^verbatim>\<open>os.path.join\<close> on Windows, for a relative second component.\<close>

definition path_join :: "string \<Rightarrow> string \<Rightarrow> string" where
  "path_join a b = a @ bs @ b"

subsection \<open>Exceptions, events, the machine and the world\<close>

datatype exn =
    CalledProcessError int string string
  | FileNotFoundError
  | OSError
  | ImportError
  | TypeError
  | KeyError
  | Psycopg2Error string
  | SystemExit int

text \<open>\<^verbatim>\<open>except Exception\<close> catches every exception of the model but \<^verbatim>\<open>SystemExit\<close>.\<close>

fun is_Exception :: "exn \<Rightarrow> bool" where
  "is_Exception (SystemExit _) = False"
| "is_Exception _ = True"

datatype 'a res = Ret 'a | Raise exn

text \<open>What a child process can do to \<^verbatim>\<open>subprocess.run\<close>: the program is not found, or it
  runs and ends with a return code, its standard output and its standard error.\<close>

datatype proc_outcome = NotFound | Completed int string string

record completed =
  returncode :: int
  stdout :: string
  stderr :: string

text \<open>What the process does to the outside, in the order it does it.\<close>

datatype event =
    Print string
  | Run string "string option"
  | Ask string
  | WriteFile string string
  | Popen string
  | ShellExecute string string string
  | Sql string
  | Io string

fun is_Run :: "event \<Rightarrow> bool" where
  "is_Run (Run _ _) = True"
| "is_Run _ = False"

fun is_Ask :: "event \<Rightarrow> bool" where
  "is_Ask (Ask _) = True"
| "is_Ask _ = False"

fun is_Print :: "event \<Rightarrow> bool" where
  "is_Print (Print _) = True"
| "is_Print _ = False"

record installer =
  node_version :: string
  project_dir :: string
  db_name :: string
  db_user :: string
  db_password :: string
  db_host :: string
  db_port :: string

text \<open>The state of the running script: the installer object, \<^verbatim>\<open>os.environ\<close>, the files it
  has written, the machine-wide PATH of the registry, the events so far, and how many
  child processes and prompts there have been.\<close>

record machine =
  self :: installer
  environ :: "string \<rightharpoonup> string"
  files :: "string \<rightharpoonup> string"
  registry_path :: string
  trace :: "event list"
  nproc :: nat
  nask :: nat

text \<open>The outside: \<open>proc w n\<close> is the outcome of the \<open>n\<close>-th child process of the run,
  \<open>answer w n\<close> what the user types at the \<open>n\<close>-th prompt, \<open>rand w i\<close> the \<open>i\<close>-th draw of
  \<^verbatim>\<open>secrets.choice\<close>. The scripts ask about no path that the run changes between two
  questions, so the file system is a function of the path. \<open>io_fails w op\<close> tells whether the library call \<open>op\<close>, which
  touches the disk, the network, the registry or the database server, raises.
  \<open>catalog w\<close> holds the names of the databases of the server, \<open>pg_message w\<close> the text
  of the error the database driver raises, and \<open>exn_text w e\<close> is \<^verbatim>\<open>str(e)\<close>, the text the
  Python library gives the exception \<open>e\<close>. \<open>stays_up w n\<close> tells whether the \<open>n\<close>-th child process
  still runs when the script polls it.\<close>

record world =
  proc :: "nat \<Rightarrow> proc_outcome"
  answer :: "nat \<Rightarrow> string"
  rand :: "nat \<Rightarrow> nat"
  admin :: bool
  path_exists :: "string \<Rightarrow> bool"
  path_isdir :: "string \<Rightarrow> bool"
  listdir :: "string \<Rightarrow> string list option"
  io_fails :: "string \<Rightarrow> bool"
  tempdir :: string
  tmp_name :: string
  argv :: "string list"
  executable :: string
  catalog :: "string list"
  pg_message :: string
  exn_text :: "exn \<Rightarrow> string"
  stays_up :: "nat \<Rightarrow> bool"

definition emit :: "event \<Rightarrow> machine \<Rightarrow> machine" where
  "emit e m = m\<lparr>trace := trace m @ [e]\<rparr>"

definition print :: "string \<Rightarrow> machine \<Rightarrow> machine" where
  "print s m = emit (Print s) m"

definition prints :: "string list \<Rightarrow> machine \<Rightarrow> machine" where
  "prints ls m = foldl (\<lambda>m' l. print l m') m ls"

text \<open>A library call that changes something outside and returns nothing of interest.\<close>

definition io :: "world \<Rightarrow> string \<Rightarrow> machine \<Rightarrow> unit res \<times> machine" where
  "io w op m = (if io_fails w op then (Raise OSError, m) else (Ret (), emit (Io op) m))"

text \<open>The exception classes named by the \<^verbatim>\<open>except\<close> clauses of the scripts.\<close>

fun is_CalledProcessError :: "exn \<Rightarrow> bool" where
  "is_CalledProcessError (CalledProcessError _ _ _) = True"
| "is_CalledProcessError _ = False"

fun is_CalledProcessError_or_FileNotFoundError :: "exn \<Rightarrow> bool" where
  "is_CalledProcessError_or_FileNotFoundError (CalledProcessError _ _ _) = True"
| "is_CalledProcessError_or_FileNotFoundError FileNotFoundError = True"
| "is_CalledProcessError_or_FileNotFoundError _ = False"

text \<open>\<^verbatim>\<open>input\<close> and \<^verbatim>\<open>getpass\<close>: the prompt is shown, the user's line is the result.\<close>

definition ask :: "world \<Rightarrow> string \<Rightarrow> machine \<Rightarrow> string \<times> machine" where
  "ask w prompt m = (answer w (nask m), (emit (Ask prompt) m)\<lparr>nask := Suc (nask m)\<rparr>)"

text \<open>\<^verbatim>\<open>subprocess.run(args, check=check, env=env)\<close> with a list of arguments and no shell:
  the command and the \<^verbatim>\<open>PGPASSWORD\<close> of the environment it is given are recorded; a
  program that is not found raises \<^verbatim>\<open>FileNotFoundError\<close>; with \<^verbatim>\<open>check=True\<close> a return code
  other than zero raises \<^verbatim>\<open>CalledProcessError\<close>.\<close>

definition subprocess_run ::
  "world \<Rightarrow> string \<Rightarrow> bool \<Rightarrow> (string \<rightharpoonup> string) \<Rightarrow> machine \<Rightarrow> completed res \<times> machine" where
  "subprocess_run w cmd check env m =
     (let m' = (emit (Run cmd (env ''PGPASSWORD'')) m)\<lparr>nproc := Suc (nproc m)\<rparr> in
      case proc w (nproc m) of
        NotFound \<Rightarrow> (Raise FileNotFoundError, m')
      | Completed rc out err \<Rightarrow>
          if check \<and> rc \<noteq> 0 then (Raise (CalledProcessError rc out err), m')
          else (Ret \<lparr>returncode = rc, stdout = out, stderr = err\<rparr>, m'))"

text \<open>\<^verbatim>\<open>subprocess.run(cmd, shell=True, check=check, env=env)\<close>: the command goes to the
  command interpreter, which is always there. A program that is not found is then no
  exception: the interpreter writes that it does not know the program and ends with
  return code 1.\<close>

definition not_recognized :: "string \<Rightarrow> string" where
  "not_recognized cmd =
     sq @ takeWhile (\<lambda>c. c \<noteq> CHR '' '') cmd @ sq
       @ '' is not recognized as an internal or external command,'' @ nl
       @ ''operable program or batch file.'' @ nl"

fun shell_outcome :: "string \<Rightarrow> proc_outcome \<Rightarrow> proc_outcome" where
  "shell_outcome cmd NotFound = Completed 1 [] (not_recognized cmd)"
| "shell_outcome cmd (Completed rc out err) = Completed rc out err"

definition subprocess_run_shell ::
  "world \<Rightarrow> string \<Rightarrow> bool \<Rightarrow> (string \<rightharpoonup> string) \<Rightarrow> machine \<Rightarrow> completed res \<times> machine" where
  "subprocess_run_shell w cmd check env m =
     (let m' = (emit (Run cmd (env ''PGPASSWORD'')) m)\<lparr>nproc := Suc (nproc m)\<rparr> in
      case shell_outcome cmd (proc w (nproc m)) of
        NotFound \<Rightarrow> (Raise FileNotFoundError, m')
      | Completed rc out err \<Rightarrow>
          if check \<and> rc \<noteq> 0 then (Raise (CalledProcessError rc out err), m')
          else (Ret \<lparr>returncode = rc, stdout = out, stderr = err\<rparr>, m'))"

text \<open>\<^verbatim>\<open>run_command\<close> is the same in the three scripts and is always called with its
  default \<^verbatim>\<open>shell=True\<close>. \<open>env\<close> is \<^verbatim>\<open>None\<close> or the environment the caller built.\<close>

definition run_command ::
  "world \<Rightarrow> string \<Rightarrow> bool \<Rightarrow> (string \<rightharpoonup> string) option \<Rightarrow> machine \<Rightarrow> completed res \<times> machine" where
  "run_command w cmd check env m =
     (let env' = (case env of None \<Rightarrow> environ m | Some e \<Rightarrow> e);
          m1 = print (''Running: '' @ cmd) m;
          (r, m2) = subprocess_run_shell w cmd check env' m1
      in case r of
           Ret result \<Rightarrow>
             (Ret result,
              if strip (stdout result) \<noteq> [] then print (strip (stdout result)) m2 else m2)
         | Raise (CalledProcessError rc out err) \<Rightarrow>
             (let m3 = print (''Error: '' @ err) (print (''Command failed: '' @ cmd) m2)
              in if check then (Raise (CalledProcessError rc out err), m3)
                 else (Ret \<lparr>returncode = rc, stdout = out, stderr = err\<rparr>, m3))
         | Raise e \<Rightarrow> (Raise e, m2))"

text \<open>\<^verbatim>\<open>with open(path, 'w') as f: f.write(content)\<close>: the file holds \<open>content\<close> and
  nothing else afterwards, or the call raises and the file is as it was.\<close>

definition write_file :: "world \<Rightarrow> string \<Rightarrow> string \<Rightarrow> machine \<Rightarrow> unit res \<times> machine" where
  "write_file w path content m =
     (if io_fails w (''open:'' @ path) then (Raise OSError, m)
      else (Ret (), (emit (WriteFile path content) m)\<lparr>files := (files m)(path \<mapsto> content)\<rparr>))"

subsection \<open>The generated configuration\<close>

text \<open>\<^verbatim>\<open>string.ascii_letters + string.digits\<close>, and the 64 draws of
  \<^verbatim>\<open>secrets.choice\<close>.\<close>

definition alphabet :: string where
  "alphabet = ''abcdefghijklmnopqrstuvwxyzABCDEFGHIJKLMNOPQRSTUVWXYZ0123456789''"

definition session_secret :: "world \<Rightarrow> string" where
  "session_secret w = map (\<lambda>i. alphabet ! (rand w i mod length alphabet)) [0..<64]"

definition database_url :: "installer \<Rightarrow> string" where
  "database_url s =
     ''postgresql://'' @ db_user s @ '':'' @ db_password s @ ''@'' @ db_host s @ '':'' @ db_port s
       @ ''/'' @ db_name s"

text \<open>The lines of the \<^verbatim>\<open>.env\<close> file of \<^verbatim>\<open>create_env_file\<close>. The two scripts that have the
  method differ in two blanks after \<^verbatim>\<open># Server Configuration\<close>.\<close>

definition env_lines :: "string \<Rightarrow> installer \<Rightarrow> string \<Rightarrow> string list" where
  "env_lines server_heading s secret =
     [''# Database Configuration'',
      ''DATABASE_URL='' @ database_url s,
      '''',
      server_heading,
      ''PORT=5000'',
      ''NODE_ENV=development'',
      '''',
      ''# Session Configuration'',
      ''SESSION_SECRET='' @ secret,
      '''',
      ''# Optional Email Configuration (configure in admin settings)'',
      ''# SMTP_HOST=smtp.gmail.com'',
      ''# SMTP_PORT=587'',
      ''# SMTP_USER=your-email@gmail.com'',
      ''# SMTP_PASS=your-app-password'']"

definition unlines :: "string list \<Rightarrow> string" where
  "unlines ls = concat (map (\<lambda>l. l @ nl) ls)"

definition env_path :: "installer \<Rightarrow> string" where
  "env_path s = path_join (project_dir s) ''.env''"

definition create_env_file :: "string \<Rightarrow> world \<Rightarrow> machine \<Rightarrow> bool res \<times> machine" where
  "create_env_file server_heading w m =
     (let m1 = print ''Creating environment configuration...'' m;
          env_content = unlines (env_lines server_heading (self m1) (session_secret w));
          (r, m2) = write_file w (env_path (self m1)) env_content m1
      in case r of
           Raise e \<Rightarrow> (Raise e, m2)
         | Ret _ \<Rightarrow> (Ret True, print (''Environment file created: '' @ env_path (self m2)) m2))"

definition wi_create_env_file :: "world \<Rightarrow> machine \<Rightarrow> bool res \<times> machine" where
  "wi_create_env_file = create_env_file ''# Server Configuration''"

definition wif_create_env_file :: "world \<Rightarrow> machine \<Rightarrow> bool res \<times> machine" where
  "wif_create_env_file = create_env_file ''# Server Configuration  ''"

subsection \<open>\<^verbatim>\<open>windows_installer_fixed.py\<close>: \<^verbatim>\<open>setup_database\<close>\<close>

definition psql :: "installer \<Rightarrow> string" where
  "psql s = ''psql -U '' @ db_user s @ '' -h '' @ db_host s @ '' -p '' @ db_port s"

definition test_conn_cmd :: "installer \<Rightarrow> string" where
  "test_conn_cmd s = psql s @ '' -c '' @ dq @ ''SELECT 1;'' @ dq"

definition check_db_cmd :: "installer \<Rightarrow> string" where
  "check_db_cmd s = psql s @ '' -lqt''"

definition create_db_cmd :: "installer \<Rightarrow> string" where
  "create_db_cmd s = psql s @ '' -c '' @ dq @ ''CREATE DATABASE '' @ db_name s @ '';'' @ dq"

definition setenv :: "string \<Rightarrow> string \<Rightarrow> machine \<Rightarrow> machine" where
  "setenv k v m = m\<lparr>environ := (environ m)(k \<mapsto> v)\<rparr>"

definition unsetenv :: "string \<Rightarrow> machine \<Rightarrow> machine" where
  "unsetenv k m = m\<lparr>environ := (environ m)(k := None)\<rparr>"

text \<open>Lines 110 to 123: the existence check, the create, the \<^verbatim>\<open>.env\<close> file.\<close>

definition wif_ensure_database :: "world \<Rightarrow> machine \<Rightarrow> bool res \<times> machine" where
  "wif_ensure_database w m =
     (let (r, m1) = run_command w (check_db_cmd (self m)) True None m in
      case r of
        Raise e \<Rightarrow> (Raise e, m1)
      | Ret result \<Rightarrow>
          if \<not> str_in (db_name (self m1)) (stdout result) then
            (let (r2, m2) = run_command w (create_db_cmd (self m1)) True None m1 in
             case r2 of
               Raise e \<Rightarrow> (Raise e, m2)
             | Ret _ \<Rightarrow>
                 wif_create_env_file w
                   (print (''Database '' @ db_name (self m2) @ '' created successfully'') m2))
          else
            wif_create_env_file w
              (print (''Database '' @ db_name (self m1) @ '' already exists'') m1))"

text \<open>Lines 98 to 123, the body of the \<^verbatim>\<open>try\<close>: the connection test, the one prompt and
  the one retest after a password failure, then the rest.\<close>

definition wif_setup_database_try :: "world \<Rightarrow> machine \<Rightarrow> bool res \<times> machine" where
  "wif_setup_database_try w m =
     (let m1 = setenv ''PGPASSWORD'' (db_password (self m)) m;
          (r, m2) = run_command w (test_conn_cmd (self m1)) False None m1
      in case r of
           Raise e \<Rightarrow> (Raise e, m2)
         | Ret result \<Rightarrow>
             if returncode result \<noteq> 0
                \<and> str_in ''password authentication failed'' (lower (stderr result)) then
               (let m3 = print
                      ''PostgreSQL password authentication failed. Please provide the correct password.''
                      m2;
                    (pw, m4) = ask w
                      (''Enter password for PostgreSQL user '' @ db_user (self m3) @ '': '') m3;
                    m5 = setenv ''PGPASSWORD'' pw (m4\<lparr>self := (self m4)\<lparr>db_password := pw\<rparr>\<rparr>);
                    (r2, m6) = run_command w (test_conn_cmd (self m5)) True None m5
                in case r2 of
                     Raise e \<Rightarrow> (Raise e, m6)
                   | Ret _ \<Rightarrow> wif_ensure_database w m6)
             else wif_ensure_database w m2)"

text \<open>The whole method: \<^verbatim>\<open>CalledProcessError\<close> is caught and turned into \<^verbatim>\<open>False\<close>, any
  other exception leaves the method, and the \<^verbatim>\<open>finally\<close> clause removes \<^verbatim>\<open>PGPASSWORD\<close>
  from the environment on every way out.\<close>

definition wif_setup_database :: "world \<Rightarrow> machine \<Rightarrow> bool res \<times> machine" where
  "wif_setup_database w m =
     (let (r, m1) = wif_setup_database_try w (print ''Setting up PostgreSQL database...'' m) in
      case r of
        Raise (CalledProcessError rc out err) \<Rightarrow>
          (Ret False, unsetenv ''PGPASSWORD'' (print (''Failed to set up database: '' @ err) m1))
      | _ \<Rightarrow> (r, unsetenv ''PGPASSWORD'' m1))"

subsection \<open>\<^verbatim>\<open>windows_installer.py\<close>\<close>

text \<open>\<^verbatim>\<open>is_admin\<close> is the answer of the shell library, \<^verbatim>\<open>False\<close> when asking raises;
  \<open>admin w\<close> is that value.\<close>

definition is_admin :: "world \<Rightarrow> bool" where
  "is_admin w = admin w"

text \<open>\<^verbatim>\<open>" ".join(xs)\<close>.\<close>

fun join_blank :: "string list \<Rightarrow> string" where
  "join_blank [] = []"
| "join_blank [x] = x"
| "join_blank (x # y # ys) = x @ '' '' @ join_blank (y # ys)"

definition wi_run_as_admin :: "world \<Rightarrow> machine \<Rightarrow> bool res \<times> machine" where
  "wi_run_as_admin w m =
     (if is_admin w then (Ret True, m)
      else
        (Ret False,
         emit (ShellExecute ''runas'' (executable w) (join_blank (argv w)))
           (prints [''Administrator privileges required for Node.js installation'',
                    ''Restarting with administrator privileges...''] m)))"

text \<open>\<^verbatim>\<open>check_node_installed\<close>, the same text in \<^verbatim>\<open>windows_installer.py\<close> and in
  \<^verbatim>\<open>windows_installer_complete.py\<close>: \<^verbatim>\<open>node --version\<close>, then \<^verbatim>\<open>npm --version\<close>, both with
  \<^verbatim>\<open>check=True\<close>.\<close>

definition check_node_installed :: "world \<Rightarrow> machine \<Rightarrow> bool res \<times> machine" where
  "check_node_installed w m =
     (let (r, m1) = subprocess_run w ''node --version'' True (environ m) m in
      case r of
        Raise e \<Rightarrow>
          if is_CalledProcessError_or_FileNotFoundError e then (Ret False, m1) else (Raise e, m1)
      | Ret result \<Rightarrow>
          (let m2 = print (''Node.js found: '' @ strip (stdout result)) m1;
               (r2, m3) = subprocess_run w ''npm --version'' True (environ m2) m2
           in case r2 of
                Raise e \<Rightarrow>
                  if is_CalledProcessError_or_FileNotFoundError e then (Ret False, m3)
                  else (Raise e, m3)
              | Ret result2 \<Rightarrow> (Ret True, print (''npm found: v'' @ strip (stdout result2)) m3)))"

definition winget_node_cmd :: string where
  "winget_node_cmd =
     ''winget install -e --id OpenJS.NodeJS.LTS --accept-source-agreements --accept-package-agreements''"

definition msi_path :: "world \<Rightarrow> string" where
  "msi_path w = path_join (tempdir w) (tmp_name w @ ''.msi'')"

text \<open>Lines 117 to 141 of \<^verbatim>\<open>install_node_windows\<close>, the download of the MSI: each step may
  raise; after the last one the method waits for the Enter key and leaves the process
  by \<^verbatim>\<open>sys.exit(0)\<close>.\<close>

definition wi_install_node_msi_try :: "world \<Rightarrow> machine \<Rightarrow> bool res \<times> machine" where
  "wi_install_node_msi_try w m =
     (let (r1, m1) = io w ''tempfile.NamedTemporaryFile'' m in
      case r1 of
        Raise e \<Rightarrow> (Raise e, m1)
      | Ret _ \<Rightarrow>
      (let m2 = print (''Downloading Node.js v'' @ node_version (self m1) @ ''...'') m1;
           (r2, m3) = io w ''urllib.request.urlretrieve'' m2 in
       case r2 of
         Raise e \<Rightarrow> (Raise e, m3)
       | Ret _ \<Rightarrow>
       (let m4 = print ''Installing Node.js...'' m3;
            (r3, m5) = subprocess_run w
               (''msiexec /i '' @ msi_path w @ '' /quiet /norestart ADDLOCAL=ALL'') True
               (environ m4) m4 in
        case r3 of
          Raise e \<Rightarrow> (Raise e, m5)
        | Ret _ \<Rightarrow>
        (let (r4, m6) = io w ''os.unlink'' m5 in
         case r4 of
           Raise e \<Rightarrow> (Raise e, m6)
         | Ret _ \<Rightarrow>
         (let m7 = prints
                [''Node.js installed successfully'',
                 ''PATH has been updated. Please close this window and run the installer again in a NEW command prompt.'',
                 ''   (This is required so Windows recognizes the new Node.js installation)''] m6;
              (a, m8) = ask w
                ''Press Enter to exit. Then reopen Command Prompt and run this script again...'' m7
          in (Raise (SystemExit 0), m8))))))"

text \<open>The whole method: winget first; when winget is not there or fails, the MSI. The
  handler \<^verbatim>\<open>except Exception\<close> of the MSI part does not catch \<^verbatim>\<open>SystemExit\<close>.\<close>

definition wi_install_node_windows :: "world \<Rightarrow> machine \<Rightarrow> bool res \<times> machine" where
  "wi_install_node_windows w m =
     (let m1 = print ''Installing Node.js...'' m;
          (r, m2) = subprocess_run w winget_node_cmd True (environ m1) m1
      in case r of
           Ret _ \<Rightarrow> (Ret True, print ''Node.js installed via winget'' m2)
         | Raise e \<Rightarrow>
             if is_CalledProcessError_or_FileNotFoundError e then
               (let m3 = print ''winget not available, downloading Node.js MSI...'' m2;
                    (r', m4) = wi_install_node_msi_try w m3
                in case r' of
                     Raise e' \<Rightarrow>
                       if is_Exception e' then
                         (Ret False, print (''Failed to install Node.js: '' @ exn_text w e') m4)
                       else (Raise e', m4)
                   | Ret b \<Rightarrow> (Ret b, m4))
             else (Raise e, m2))"

definition wi_install_python_postgres_lib :: "world \<Rightarrow> machine \<Rightarrow> bool res \<times> machine" where
  "wi_install_python_postgres_lib w m =
     (let m1 = print ''Installing Python PostgreSQL library...'' m;
          (r, m2) = subprocess_run w (executable w @ '' -m pip install psycopg2-binary'') True
             (environ m1) m1
      in case r of
           Ret _ \<Rightarrow> (Ret True, print ''PostgreSQL library installed'' m2)
         | Raise e \<Rightarrow>
             if is_CalledProcessError e then
               (Ret False, print (''Failed to install PostgreSQL library: '' @ exn_text w e) m2)
             else (Raise e, m2))"

text \<open>A call of the database driver: the statement goes to the server, or the driver
  raises its error.\<close>

definition pg :: "world \<Rightarrow> string \<Rightarrow> machine \<Rightarrow> unit res \<times> machine" where
  "pg w stmt m =
     (if io_fails w stmt then (Raise (Psycopg2Error (pg_message w)), m)
      else (Ret (), emit (Sql stmt) m))"

definition select_db_stmt :: string where
  "select_db_stmt = ''SELECT 1 FROM pg_catalog.pg_database WHERE datname = %s''"

definition create_db_stmt :: "installer \<Rightarrow> string" where
  "create_db_stmt s = ''CREATE DATABASE '' @ dq @ db_name s @ dq"

text \<open>Lines 176 to 204, the body of the second \<^verbatim>\<open>try\<close> of \<^verbatim>\<open>setup_database\<close>. The query
  has a row when a database of the catalog is named \<^verbatim>\<open>self.db_name\<close>, character for
  character.\<close>

definition wi_setup_database_try :: "world \<Rightarrow> machine \<Rightarrow> bool res \<times> machine" where
  "wi_setup_database_try w m =
     (let (r1, m1) = pg w ''connect'' m in
      case r1 of
        Raise e \<Rightarrow> (Raise e, m1)
      | Ret _ \<Rightarrow>
      (let (r2, m2) = pg w select_db_stmt m1 in
       case r2 of
         Raise e \<Rightarrow> (Raise e, m2)
       | Ret _ \<Rightarrow>
           if db_name (self m2) \<notin> set (catalog w) then
             (let m3 = print (''Creating database '' @ sq @ db_name (self m2) @ sq @ ''...'') m2;
                  (r3, m4) = pg w (create_db_stmt (self m3)) m3
              in case r3 of
                   Raise e \<Rightarrow> (Raise e, m4)
                 | Ret _ \<Rightarrow>
                     (Ret True,
                      print (''Database '' @ sq @ db_name (self m4) @ sq @ '' created successfully'')
                        m4))
           else
             (Ret True,
              print (''Database '' @ sq @ db_name (self m2) @ sq @ '' already exists'') m2)))"

text \<open>Lines 206 to 218, the handler of the driver's error: the advice it prints names
  the password.\<close>

definition wi_setup_database_except :: "string \<Rightarrow> machine \<Rightarrow> machine" where
  "wi_setup_database_except msg m =
     prints
       [''Database setup failed: '' @ msg,
        ''Please ensure:'',
        ''   PostgreSQL service is running'',
        ''   Host: '' @ db_host (self m) @ '':'' @ db_port (self m),
        ''   User: '' @ db_user (self m),
        ''   Password: '' @ db_password (self m),
        ''   User has database creation privileges'',
        nl @ ''Common solutions:'',
        ''   - Check Windows Services for '' @ sq @ ''postgresql'' @ sq @ '' service'',
        ''   - Verify credentials in pgAdmin or psql'',
        ''   - Ensure PostgreSQL is accepting connections on localhost''] m"

definition wi_setup_database_connect :: "world \<Rightarrow> machine \<Rightarrow> bool res \<times> machine" where
  "wi_setup_database_connect w m =
     (let (r, m1) = wi_setup_database_try w m in
      case r of
        Raise (Psycopg2Error msg) \<Rightarrow> (Ret False, wi_setup_database_except msg m1)
      | _ \<Rightarrow> (r, m1))"

text \<open>The whole method: the driver is imported, after a \<^verbatim>\<open>pip install\<close> when the first
  import fails.\<close>

definition wi_setup_database :: "world \<Rightarrow> machine \<Rightarrow> bool res \<times> machine" where
  "wi_setup_database w m =
     (let m1 = print (''Setting up PostgreSQL database '' @ sq @ db_name (self m) @ sq @ ''...'') m in
      if io_fails w ''import psycopg2'' then
        (let (r, m2) = wi_install_python_postgres_lib w m1 in
         case r of
           Raise e \<Rightarrow> (Raise e, m2)
         | Ret ok \<Rightarrow>
             if \<not> ok then
               (Ret False, print ''Cannot setup database without PostgreSQL library'' m2)
             else if io_fails w ''import psycopg2 (after pip install)'' then
               (Raise ImportError, m2)
             else wi_setup_database_connect w m2)
      else wi_setup_database_connect w m1)"

text \<open>Sequencing: the second computation runs on the result and the machine the first
  one returns; an exception of the first one ends the sequence.\<close>

definition and_then ::
  "'a res \<times> machine \<Rightarrow> ('a \<Rightarrow> machine \<Rightarrow> 'b res \<times> machine) \<Rightarrow> 'b res \<times> machine" where
  "and_then x f = (case fst x of Ret a \<Rightarrow> f a (snd x) | Raise e \<Rightarrow> (Raise e, snd x))"

definition banner :: "nat \<Rightarrow> string \<Rightarrow> machine \<Rightarrow> machine" where
  "banner n title m =
     prints [nl @ replicate n (CHR ''=''), title, replicate n (CHR ''='')] m"

definition wi_install_npm_dependencies :: "world \<Rightarrow> machine \<Rightarrow> bool res \<times> machine" where
  "wi_install_npm_dependencies w m =
     (let m1 = print ''Installing application dependencies...'' m in
      if \<not> path_exists w (path_join (project_dir (self m1)) ''package.json'') then
        (Ret False, print (''package.json not found in '' @ project_dir (self m1)) m1)
      else
        (let (r, m2) =
               (if path_exists w (path_join (project_dir (self m1)) ''package-lock.json'')
                then run_command w ''npm ci'' True None m1
                else run_command w ''npm install'' True None m1)
         in case r of
              Ret _ \<Rightarrow> (Ret True, print ''Dependencies installed successfully'' m2)
            | Raise e \<Rightarrow>
                if is_CalledProcessError e then
                  (Ret False,
                   prints
                     [''Dependency installation failed'',
                      ''If you see build errors, you may need to install Microsoft C++ Build Tools'',
                      ''   Download from: https://visualstudio.microsoft.com/visual-cpp-build-tools/'']
                     m2)
                else (Raise e, m2)))"

definition wi_run_database_migration :: "world \<Rightarrow> machine \<Rightarrow> bool res \<times> machine" where
  "wi_run_database_migration w m =
     (let m1 = print ''Setting up database tables...'' m;
          env = (environ m1)(''NODE_ENV'' \<mapsto> ''development'');
          (r, m2) = run_command w ''npm run db:push'' True (Some env) m1
      in case r of
           Ret _ \<Rightarrow> (Ret True, print ''Database tables created successfully'' m2)
         | Raise e \<Rightarrow>
             if is_CalledProcessError e then
               (Ret True, print ''Database migration may have failed, but continuing...'' m2)
             else (Raise e, m2))"

definition wi_build_application :: "world \<Rightarrow> machine \<Rightarrow> bool res \<times> machine" where
  "wi_build_application w m =
     (let m1 = print ''Building application...'' m;
          env = (environ m1)(''NODE_ENV'' \<mapsto> ''production'');
          (r, m2) = run_command w ''npm run build'' True (Some env) m1
      in case r of
           Ret _ \<Rightarrow> (Ret True, print ''Application built successfully'' m2)
         | Raise e \<Rightarrow>
             if is_CalledProcessError e then (Ret False, print ''Build failed'' m2)
             else (Raise e, m2))"

text \<open>\<^verbatim>\<open>subprocess.Popen\<close> and the loop over the lines the child writes: the child is
  started and what it writes is shown; the model shows it as one message. The model
  returns when the child has ended or the user has interrupted it.\<close>

definition popen_and_stream :: "world \<Rightarrow> string \<Rightarrow> machine \<Rightarrow> unit res \<times> machine" where
  "popen_and_stream w cmd m =
     (let m' = (emit (Popen cmd) m)\<lparr>nproc := Suc (nproc m)\<rparr> in
      case proc w (nproc m) of
        NotFound \<Rightarrow> (Raise FileNotFoundError, m')
      | Completed rc out err \<Rightarrow> (Ret (), print out m'))"

definition wi_start_application :: "world \<Rightarrow> bool \<Rightarrow> machine \<Rightarrow> unit res \<times> machine" where
  "wi_start_application w production m =
     and_then
       (if production then
          (Ret ''node dist/index.js'', print ''Starting application in production mode...'' m)
        else
          (let m1 = print ''Starting application in development mode...'' m;
               (r, m2) = subprocess_run w ''npx --version'' True (environ m1) m1
           in case r of
                Ret _ \<Rightarrow> (Ret ''npx tsx server/index.ts'', m2)
              | Raise e \<Rightarrow>
                  if is_CalledProcessError_or_FileNotFoundError e
                  then (Ret ''node --loader tsx server/index.ts'', m2)
                  else (Raise e, m2)))
       (\<lambda>cmd m3.
          popen_and_stream w cmd
            (prints
               [''Starting server...'',
                ''Application will be available at: http://localhost:5000'',
                ''Press Ctrl+C to stop the server'',
                replicate 50 (CHR ''-'')] m3))"

definition start_dev_bat :: "installer \<Rightarrow> string" where
  "start_dev_bat s =
     unlines
       [''@echo off'',
        ''cd /d '' @ dq @ project_dir s @ dq,
        ''echo Starting Courier Management System in Development Mode...'',
        ''echo Web interface will be available at: http://localhost:5000'',
        ''echo Press Ctrl+C to stop the server'',
        ''echo.'',
        ''set NODE_ENV=development'',
        ''set PORT=5000'',
        ''npx tsx server/index.ts'',
        ''pause'']"

definition start_prod_bat :: "installer \<Rightarrow> string" where
  "start_prod_bat s =
     unlines
       [''@echo off'',
        ''cd /d '' @ dq @ project_dir s @ dq,
        ''echo Starting Courier Management System in Production Mode...'',
        ''echo Web interface will be available at: http://localhost:5000'',
        ''echo Press Ctrl+C to stop the server'',
        ''echo.'',
        ''set NODE_ENV=production'',
        ''set PORT=5000'',
        ''node dist/index.js'',
        ''pause'']"

definition wi_create_batch_files :: "world \<Rightarrow> bool \<Rightarrow> machine \<Rightarrow> unit res \<times> machine" where
  "wi_create_batch_files w production_ready m =
     and_then
       (write_file w (path_join (project_dir (self m)) ''start_dev.bat'') (start_dev_bat (self m)) m)
       (\<lambda>_ m1.
          and_then
            (if production_ready then
               write_file w (path_join (project_dir (self m1)) ''start_prod.bat'')
                 (start_prod_bat (self m1)) m1
             else (Ret (), m1))
            (\<lambda>_ m2.
               (let m3 = print ''   start_dev.bat - Double-click to start development server'' m2
                in (Ret (),
                    if production_ready
                    then print ''   start_prod.bat - Double-click to start production server'' m3
                    else m3))))"

text \<open>Lines 379 to 443 of \<^verbatim>\<open>run_installation\<close>: what follows the installation of
  Node.js.\<close>

definition wi_run_installation_rest :: "world \<Rightarrow> machine \<Rightarrow> bool res \<times> machine" where
  "wi_run_installation_rest w m =
     and_then (wi_install_npm_dependencies w (banner 50 ''INSTALLING DEPENDENCIES'' m))
     (\<lambda>deps m1.
        if \<not> deps then (Ret False, print ''Installation failed at dependency installation'' m1)
        else
     and_then (wi_setup_database w (banner 50 ''SETTING UP DATABASE'' m1))
     (\<lambda>db m2.
        if \<not> db then (Ret False, print ''Installation failed at database setup'' m2)
        else
     and_then (wi_create_env_file w m2)
     (\<lambda>env m3.
        if \<not> env then (Ret False, print ''Installation failed at environment configuration'' m3)
        else
     and_then (wi_run_database_migration w m3)
     (\<lambda>mig m4.
     and_then
       (wi_build_application w
          (banner 50 ''BUILDING APPLICATION''
             (if \<not> mig then print ''Database migration had issues, but continuing...'' m4
              else m4)))
     (\<lambda>production m5.
        (let m6 = (if \<not> production
                   then print ''Build failed, starting in development mode...'' m5 else m5);
             m7 = prints
                    [''Courier Management System is ready!'',
                     ''Project location: '' @ project_dir (self m6),
                     ''Database: PostgreSQL (localhost)'',
                     ''URL: http://localhost:5000'',
                     nl @ ''First login will automatically create admin user'']
                    (banner 50 ''INSTALLATION COMPLETE!'' m6);
             (a, m8) = ask w (nl @ ''Start the application now? (y/n): '') m7;
             choice = strip (lower a)
         in if choice \<in> set [''y'', ''yes'', ''''] then
              and_then (wi_start_application w production (banner 50 ''STARTING APPLICATION'' m8))
                (\<lambda>_ m9. (Ret True, m9))
            else
              and_then
                (wi_create_batch_files w production
                   (prints
                      [nl @ ''To start the application later:'',
                       ''   Open Command Prompt in: '' @ project_dir (self m8),
                       ''   For development mode:'',
                       ''      npx tsx server/index.ts'',
                       ''   For production mode (after building):'',
                       ''      node dist/index.js'',
                       ''   Or use these batch files:''] m8))
                (\<lambda>_ m9. (Ret True, m9))))))))"

text \<open>Lines 360 to 377 of \<^verbatim>\<open>run_installation\<close>, then the rest: when Node.js is not
  found, the elevation, the installation, and the second probe.\<close>

definition wi_run_installation :: "world \<Rightarrow> machine \<Rightarrow> bool res \<times> machine" where
  "wi_run_installation w m =
     and_then
       (check_node_installed w
          (prints [replicate 60 (CHR ''=''), ''Courier Management System - Windows Installer'',
                   replicate 60 (CHR ''='')] m))
     (\<lambda>node m1.
        if node then wi_run_installation_rest w m1
        else
     and_then (wi_run_as_admin w m1)
     (\<lambda>elevated m2.
        if \<not> elevated then (Ret False, m2)
        else
     and_then (wi_install_node_windows w m2)
     (\<lambda>installed m3.
        if \<not> installed then (Ret False, m3)
        else
     and_then (check_node_installed w m3)
     (\<lambda>node' m4.
        if \<not> node' then
          (let m5 = prints [''Node.js installation verification failed'',
                            ''Please restart in a new command prompt and run this script again'']
                      m4;
               (a, m6) = ask w ''Press Enter to exit...'' m5
           in (Ret False, m6))
        else wi_run_installation_rest w m4))))"

text \<open>\<^verbatim>\<open>main\<close>, as the exit status of the process. \<^verbatim>\<open>sys.exit(n)\<close> passes the handler
  \<^verbatim>\<open>except Exception\<close> and ends the process with status \<open>n\<close>.\<close>

definition wi_main :: "world \<Rightarrow> machine \<Rightarrow> int \<times> machine" where
  "wi_main w m =
     (let (r, m1) = wi_run_installation w m in
      case r of
        Ret success \<Rightarrow>
          if \<not> success then
            (let (a, m2) = ask w (nl @ ''Installation failed. Press Enter to exit...'') m1
             in (1, m2))
          else (0, m1)
      | Raise (SystemExit n) \<Rightarrow> (n, m1)
      | Raise e \<Rightarrow>
          (let m2 = emit (Io ''traceback.print_exc'')
                      (print (nl @ ''Unexpected error: '' @ exn_text w e) m1);
               (a, m3) = ask w ''Press Enter to exit...'' m2
           in (1, m3)))"

subsection \<open>\<^verbatim>\<open>windows_installer_complete.py\<close>\<close>

text \<open>\<^verbatim>\<open>' '.join(f'"{arg}"' for arg in sys.argv)\<close>.\<close>

definition quoted_args :: "string list \<Rightarrow> string" where
  "quoted_args args = join_blank (map (\<lambda>arg. dq @ arg @ dq) args)"

definition wic_run_as_admin :: "world \<Rightarrow> machine \<Rightarrow> bool res \<times> machine" where
  "wic_run_as_admin w m =
     (if is_admin w then (Ret True, m)
      else
        (let m1 = prints [''Administrator privileges required for installation'',
                          ''Requesting administrator privileges...''] m
         in if io_fails w ''ShellExecuteW'' then
              (Ret False,
               prints [''Failed to elevate privileges: '' @ exn_text w OSError,
                       ''Please run this script as an administrator manually''] m1)
            else
              (Ret False,
               print ''Script will restart with elevated privileges...''
                 (emit (ShellExecute ''runas'' (executable w) (quoted_args (argv w))) m1))))"

text \<open>\<^verbatim>\<open>add_to_path\<close>: the machine-wide PATH is read from the registry; when the path is
  not yet a piece of it, the registry and then the PATH of the process get the path
  appended. Every exception ends in a warning.\<close>

definition wic_add_to_path_try :: "world \<Rightarrow> string \<Rightarrow> machine \<Rightarrow> unit res \<times> machine" where
  "wic_add_to_path_try w path m =
     and_then (io w ''winreg.QueryValueEx'' m)
     (\<lambda>_ m1.
        (let current_path = registry_path m1 in
         if \<not> str_in path current_path then
           and_then (io w ''winreg.SetValueEx'' m1)
           (\<lambda>_ m2.
              (let m3 = m2\<lparr>registry_path := current_path @ '';'' @ path\<rparr> in
               case environ m3 ''PATH'' of
                 None \<Rightarrow> (Raise KeyError, m3)
               | Some p \<Rightarrow>
                   (Ret (),
                    print (''Added '' @ path @ '' to PATH'')
                      (setenv ''PATH'' (p @ '';'' @ path) m3))))
         else (Ret (), m1)))"

definition wic_add_to_path :: "world \<Rightarrow> string \<Rightarrow> machine \<Rightarrow> unit res \<times> machine" where
  "wic_add_to_path w path m =
     (let (r, m1) = wic_add_to_path_try w path m in
      case r of
        Ret _ \<Rightarrow> (Ret (), m1)
      | Raise e \<Rightarrow>
          if is_Exception e then (Ret (), print (''Failed to add to PATH: '' @ exn_text w e) m1)
          else (Raise e, m1))"

definition zip_path :: "world \<Rightarrow> string" where
  "zip_path w = path_join (tempdir w) ''node.zip''"

text \<open>Lines 134 to 151, the body of the inner \<^verbatim>\<open>try\<close> of \<^verbatim>\<open>install_node_windows\<close>: the
  archive is fetched and unpacked, moved under \<^verbatim>\<open>%ProgramFiles%\<close>, and the new directory
  is added to the PATH. The method then returns \<^verbatim>\<open>True\<close>.\<close>

definition wic_install_node_download_try :: "world \<Rightarrow> machine \<Rightarrow> bool res \<times> machine" where
  "wic_install_node_download_try w m =
     and_then
       (io w ''urllib.request.urlretrieve''
          (print (''Downloading Node.js v'' @ node_version (self m) @ ''...'') m))
     (\<lambda>_ m1.
     and_then (io w ''shutil.unpack_archive'' (print ''Extracting Node.js...'' m1))
     (\<lambda>_ m2.
        case environ m2 ''ProgramFiles'' of
          None \<Rightarrow> (Raise TypeError, m2)
        | Some pf \<Rightarrow>
            (let install_path = path_join pf ''nodejs'' in
     and_then
       (if path_exists w install_path then io w ''shutil.rmtree'' m2 else (Ret (), m2))
     (\<lambda>_ m3.
     and_then (io w ''shutil.move'' m3)
     (\<lambda>_ m4.
     and_then (wic_add_to_path w install_path m4)
     (\<lambda>_ m5. (Ret True, print ''Node.js installed via direct download'' m5)))))))"

text \<open>The \<^verbatim>\<open>finally\<close> clause: the archive is removed when it is there; an exception of
  the removal replaces the result.\<close>

definition wic_install_node_cleanup ::
  "world \<Rightarrow> bool res \<times> machine \<Rightarrow> bool res \<times> machine" where
  "wic_install_node_cleanup w x =
     (if path_exists w (zip_path w) then
        (let (r, m) = io w ''os.remove'' (snd x) in
         case r of Raise e \<Rightarrow> (Raise e, m) | Ret _ \<Rightarrow> (fst x, m))
      else x)"

text \<open>The handler \<^verbatim>\<open>except Exception\<close> of the inner \<^verbatim>\<open>try\<close>, and the inner \<^verbatim>\<open>try\<close> statement as
  a whole: body, handler, \<^verbatim>\<open>finally\<close>.\<close>

definition wic_install_node_except ::
  "world \<Rightarrow> bool res \<times> machine \<Rightarrow> bool res \<times> machine" where
  "wic_install_node_except w x =
     (case fst x of
        Raise e \<Rightarrow>
          if is_Exception e then
            (Ret False,
             print (''Failed to install Node.js via direct download: '' @ exn_text w e) (snd x))
          else (Raise e, snd x)
      | Ret b \<Rightarrow> (Ret b, snd x))"

definition wic_install_node_download :: "world \<Rightarrow> machine \<Rightarrow> bool res \<times> machine" where
  "wic_install_node_download w m =
     wic_install_node_cleanup w (wic_install_node_except w (wic_install_node_download_try w m))"

text \<open>The whole method: winget first; when winget is not there or fails, the direct
  download.\<close>

definition wic_install_node_windows :: "world \<Rightarrow> machine \<Rightarrow> bool res \<times> machine" where
  "wic_install_node_windows w m =
     (let m1 = print ''Installing Node.js...'' m;
          (r, m2) = subprocess_run w winget_node_cmd True (environ m1) m1
      in case r of
           Ret _ \<Rightarrow> (Ret True, print ''Node.js installed via winget'' m2)
         | Raise e \<Rightarrow>
             if is_CalledProcessError_or_FileNotFoundError e then
               wic_install_node_download w
                 (prints
                    [''winget installation failed or winget not found: '' @ exn_text w e,
                     ''Attempting direct download of Node.js...''] m2)
             else (Raise e, m2))"

definition wic_check_postgres_installed :: "world \<Rightarrow> machine \<Rightarrow> bool res \<times> machine" where
  "wic_check_postgres_installed w m =
     (let (r, m1) = subprocess_run w ''psql --version'' True (environ m) m in
      case r of
        Raise e \<Rightarrow>
          if is_CalledProcessError_or_FileNotFoundError e then (Ret False, m1) else (Raise e, m1)
      | Ret result \<Rightarrow> (Ret True, print (''PostgreSQL found: '' @ strip (stdout result)) m1))"

text \<open>\<^verbatim>\<open>find_postgres_bin_path\<close>: the inner loop over the sorted version directories,
  and the outer loop over the two base paths. \<^verbatim>\<open>versions.sort(reverse=True)\<close> sorts the
  names as strings, the greatest first.\<close>

definition base_paths :: "string list" where
  "base_paths =
     [''C:'' @ bs @ ''Program Files'' @ bs @ ''PostgreSQL'',
      ''C:'' @ bs @ ''Program Files (x86)'' @ bs @ ''PostgreSQL'']"

definition bin_path :: "string \<Rightarrow> string \<Rightarrow> string" where
  "bin_path base_path version = path_join (path_join base_path version) ''bin''"

definition has_psql :: "world \<Rightarrow> string \<Rightarrow> string \<Rightarrow> bool" where
  "has_psql w base_path version =
     (path_exists w (bin_path base_path version)
      \<and> path_exists w (path_join (bin_path base_path version) ''psql.exe''))"

fun find_in_versions :: "world \<Rightarrow> string \<Rightarrow> string list \<Rightarrow> string option" where
  "find_in_versions w base_path [] = None"
| "find_in_versions w base_path (version # versions) =
     (if has_psql w base_path version then Some (bin_path base_path version)
      else find_in_versions w base_path versions)"

definition sorted_versions :: "world \<Rightarrow> string \<Rightarrow> string list \<Rightarrow> string list" where
  "sorted_versions w base_path ds =
     rev (sort (filter (\<lambda>d. path_isdir w (path_join base_path d)) ds))"

fun find_in_base_paths :: "world \<Rightarrow> string list \<Rightarrow> string option" where
  "find_in_base_paths w [] = None"
| "find_in_base_paths w (base_path # rest) =
     (if path_exists w base_path then
        (case listdir w base_path of
           None \<Rightarrow> find_in_base_paths w rest
         | Some ds \<Rightarrow>
             (case find_in_versions w base_path (sorted_versions w base_path ds) of
                Some p \<Rightarrow> Some p
              | None \<Rightarrow> find_in_base_paths w rest))
      else find_in_base_paths w rest)"

definition find_postgres_bin_path :: "world \<Rightarrow> string option" where
  "find_postgres_bin_path w = find_in_base_paths w base_paths"

definition winget_postgres_cmd :: string where
  "winget_postgres_cmd =
     ''winget install -e --id PostgreSQL.PostgreSQL --accept-source-agreements --accept-package-agreements''"

text \<open>The manual instructions that \<^verbatim>\<open>install_postgres_windows\<close> prints when \<^verbatim>\<open>winget\<close>
  has failed.\<close>

definition manual_instructions :: "installer \<Rightarrow> string list" where
  "manual_instructions s =
     [''Please install PostgreSQL manually:'',
      ''  1. Download from https://www.postgresql.org/download/windows/'',
      ''  2. Run the installer'',
      ''  3. Set password to: '' @ db_password s,
      ''  4. Re-run this script'']"

definition wic_install_postgres_windows :: "world \<Rightarrow> machine \<Rightarrow> bool res \<times> machine" where
  "wic_install_postgres_windows w m =
     (let m1 = prints
             [''Installing PostgreSQL...'',
              nl @ ''PostgreSQL Installation Setup:'',
              ''You will be prompted to set a password for the PostgreSQL '' @ sq @ ''postgres''
                @ sq @ '' user.''] m;
          (a, m2) = ask w
             (''Enter password for PostgreSQL (or press Enter for '' @ sq @ db_password (self m1)
                @ sq @ ''): '') m1;
          password = strip a;
          m3 = (if password \<noteq> [] then
                  print (''Using password: '' @ password)
                    (m2\<lparr>self := (self m2)\<lparr>db_password := password\<rparr>\<rparr>)
                else print (''Using default password: '' @ db_password (self m2)) m2);
          (r, m4) = subprocess_run w winget_postgres_cmd True (environ m3) m3
      in case r of
           Ret _ \<Rightarrow>
             (let m5 = print ''PostgreSQL installed via winget'' m4 in
              case find_postgres_bin_path w of
                Some postgres_path \<Rightarrow>
                  and_then (wic_add_to_path w postgres_path m5)
                    (\<lambda>_ m6. (Ret True, print (''Added PostgreSQL to PATH: '' @ postgres_path) m6))
              | None \<Rightarrow> (Ret True, print ''Could not find PostgreSQL installation path'' m5))
         | Raise e \<Rightarrow>
             if is_CalledProcessError_or_FileNotFoundError e then
               (Ret False,
                prints
                  ((''winget installation failed: '' @ exn_text w e) # manual_instructions (self m4))
                  m4)
             else (Raise e, m4))"

definition createdb_cmd :: "installer \<Rightarrow> string" where
  "createdb_cmd s =
     ''createdb -U postgres -h '' @ db_host s @ '' -p '' @ db_port s @ '' '' @ db_name s"

text \<open>\<^verbatim>\<open>setup_database\<close> of \<^verbatim>\<open>windows_installer_complete.py\<close>: one \<^verbatim>\<open>createdb\<close> with
  \<^verbatim>\<open>check=False\<close>, the password in a copy of the environment; whatever the return code,
  the method returns \<^verbatim>\<open>True\<close>.\<close>

definition wic_setup_database :: "world \<Rightarrow> machine \<Rightarrow> bool res \<times> machine" where
  "wic_setup_database w m =
     (let m1 = emit (Io ''time.sleep(10)'')
                 (prints [''Setting up PostgreSQL database...'',
                          ''Waiting for PostgreSQL service...''] m);
          m2 = print (''Creating database '' @ sq @ db_name (self m1) @ sq @ ''...'') m1;
          env = (environ m2)(''PGPASSWORD'' \<mapsto> db_password (self m2));
          (r, m3) = run_command w (createdb_cmd (self m2)) False (Some env) m2
      in case r of
           Ret result \<Rightarrow>
             if returncode result = 0 then
               (Ret True,
                print (''Database '' @ sq @ db_name (self m3) @ sq @ '' created successfully'') m3)
             else
               (Ret True, print (''Database might already exist: '' @ stderr result) m3)
         | Raise e \<Rightarrow>
             if is_Exception e then
               (Ret False, print (''Failed to setup database: '' @ exn_text w e) m3)
             else (Raise e, m3))"

text \<open>The lines of the \<^verbatim>\<open>.env\<close> file of \<^verbatim>\<open>set_environment_variables\<close>.\<close>

definition wic_env_lines :: "installer \<Rightarrow> string list" where
  "wic_env_lines s =
     [''# Local Development Environment Variables'',
      ''DATABASE_URL='' @ database_url s,
      ''NODE_ENV=development'',
      ''PGHOST='' @ db_host s,
      ''PGPORT='' @ db_port s,
      ''PGUSER='' @ db_user s,
      ''PGPASSWORD='' @ db_password s,
      ''PGDATABASE='' @ db_name s]"

definition wic_set_environment_variables :: "world \<Rightarrow> machine \<Rightarrow> bool res \<times> machine" where
  "wic_set_environment_variables w m =
     (let m1 = print ''Setting up environment variables...'' m;
          env_content = unlines (wic_env_lines (self m1));
          (r, m2) = write_file w (env_path (self m1)) env_content m1
      in case r of
           Ret _ \<Rightarrow>
             (Ret True,
              setenv ''NODE_ENV'' ''development''
                (setenv ''DATABASE_URL'' (database_url (self m2))
                   (print (''Created .env file at '' @ env_path (self m2)) m2)))
         | Raise e \<Rightarrow>
             if is_Exception e then
               (Ret False, print (''Failed to create .env file: '' @ exn_text w e) m2)
             else (Raise e, m2))"

definition wic_install_dependencies :: "world \<Rightarrow> machine \<Rightarrow> bool res \<times> machine" where
  "wic_install_dependencies w m =
     (let (r, m1) = run_command w ''npm install'' True None
                      (print ''Installing npm dependencies...'' m)
      in case r of
           Ret _ \<Rightarrow> (Ret True, print ''npm dependencies installed'' m1)
         | Raise e \<Rightarrow>
             if is_Exception e then
               (Ret False, print (''Failed to install dependencies: '' @ exn_text w e) m1)
             else (Raise e, m1))"

definition wic_setup_database_schema :: "world \<Rightarrow> machine \<Rightarrow> bool res \<times> machine" where
  "wic_setup_database_schema w m =
     (let m1 = print ''Setting up database schema...'' m;
          env = (environ m1)(''DATABASE_URL'' \<mapsto> database_url (self m1));
          (r, m2) = run_command w ''npm run db:push'' True (Some env) m1
      in case r of
           Ret _ \<Rightarrow> (Ret True, print ''Database schema created'' m2)
         | Raise e \<Rightarrow>
             if is_Exception e then
               (Ret False, print (''Failed to setup database schema: '' @ exn_text w e) m2)
             else (Raise e, m2))"

definition wic_start_application :: "world \<Rightarrow> machine \<Rightarrow> unit res \<times> machine" where
  "wic_start_application w m =
     (let m1 = prints [''Starting the application...'',
                       ''Application is starting...'',
                       ''Open your browser to http://localhost:5000'',
                       ''Use Ctrl+C to stop the application''] m;
          env = ((environ m1)(''DATABASE_URL'' \<mapsto> database_url (self m1)))
                  (''NODE_ENV'' \<mapsto> ''development'');
          (r, m2) = run_command w ''npm run dev'' True (Some env) m1
      in case r of
           Ret _ \<Rightarrow> (Ret (), m2)
         | Raise e \<Rightarrow>
             if is_Exception e then
               (Ret (), print (''Failed to start application: '' @ exn_text w e) m2)
             else (Raise e, m2))"

text \<open>\<^verbatim>\<open>run_installation\<close> of \<^verbatim>\<open>windows_installer_complete.py\<close>, in two parts: the two
  dependencies, and the steps after them (lines 388 to 420).\<close>

definition wic_run_installation_rest :: "world \<Rightarrow> machine \<Rightarrow> bool res \<times> machine" where
  "wic_run_installation_rest w m =
     and_then (wic_setup_database w m)
     (\<lambda>db m1.
        if \<not> db then (Ret False, print ''Database setup failed. Exiting...'' m1)
        else
     and_then (wic_set_environment_variables w m1)
     (\<lambda>env m2.
        if \<not> env then (Ret False, print ''Environment setup failed. Exiting...'' m2)
        else
     and_then (wic_install_dependencies w m2)
     (\<lambda>deps m3.
        if \<not> deps then (Ret False, print ''Dependency installation failed. Exiting...'' m3)
        else
     and_then (wic_setup_database_schema w m3)
     (\<lambda>schema m4.
        if \<not> schema then (Ret False, print ''Database schema setup failed. Exiting...'' m4)
        else
          (let m5 = prints [replicate 60 (CHR ''=''), ''Installation completed successfully!'',
                            replicate 60 (CHR ''='')] m4;
               (a, m6) = ask w (nl @ ''Do you want to start the application now? (y/n): '') m5;
               start_now = strip (lower a)
           in if start_now \<in> set [''y'', ''yes''] then
                and_then (wic_start_application w m6) (\<lambda>_ m7. (Ret True, m7))
              else (Ret True, m6))))))"

definition wic_ensure_postgres :: "world \<Rightarrow> machine \<Rightarrow> bool res \<times> machine" where
  "wic_ensure_postgres w m =
     and_then (wic_check_postgres_installed w m)
     (\<lambda>pg m1.
        if pg then wic_run_installation_rest w m1
        else
          and_then (wic_install_postgres_windows w m1)
          (\<lambda>installed m2.
             if \<not> installed then
               (Ret False, print ''PostgreSQL installation failed. Exiting...'' m2)
             else wic_run_installation_rest w m2))"

definition wic_run_installation :: "world \<Rightarrow> machine \<Rightarrow> bool res \<times> machine" where
  "wic_run_installation w m =
     and_then
       (check_node_installed w
          (prints [''Starting Courier Management System Installation...'',
                   replicate 60 (CHR ''='')] m))
     (\<lambda>node m1.
        if node then wic_ensure_postgres w m1
        else
          and_then (wic_install_node_windows w m1)
          (\<lambda>installed m2.
             if \<not> installed then
               (Ret False, print ''Node.js installation failed. Exiting...'' m2)
             else wic_ensure_postgres w m2))"

text \<open>The script's \<^verbatim>\<open>__main__\<close> block, as the exit status of the process: an exception that
  nothing catches ends the process with status 1.\<close>

definition wic_main :: "world \<Rightarrow> machine \<Rightarrow> int \<times> machine" where
  "wic_main w m =
     (let (r, m1) = wic_run_as_admin w m in
      case r of
        Raise (SystemExit n) \<Rightarrow> (n, m1)
      | Raise e \<Rightarrow> (1, m1)
      | Ret elevated \<Rightarrow>
          if \<not> elevated then (1, m1)
          else
            (let (r', m2) = wic_run_installation w m1 in
             case r' of
               Raise (SystemExit n) \<Rightarrow> (n, m2)
             | Raise e \<Rightarrow> (1, m2)
             | Ret success \<Rightarrow>
                 if success then
                   (0, prints [nl @ ''Setup completed successfully!'',
                               ''To start the application in the future, run: npm run dev''] m2)
                 else
                   (1, print (nl @ ''Installation failed. Please check the errors above.'') m2)))"

subsection \<open>\<^verbatim>\<open>windows_installer_fixed.py\<close>: the probe and the batch file\<close>

text \<open>\<^verbatim>\<open>check_node_installed\<close> of the fixed script: \<^verbatim>\<open>npm --version\<close> runs with
  \<^verbatim>\<open>shell=True\<close>, and its failure is a warning only.\<close>

definition wif_check_node_installed :: "world \<Rightarrow> machine \<Rightarrow> bool res \<times> machine" where
  "wif_check_node_installed w m =
     (let (r, m1) = subprocess_run w ''node --version'' True (environ m) m in
      case r of
        Raise e \<Rightarrow>
          if is_CalledProcessError_or_FileNotFoundError e then (Ret False, m1) else (Raise e, m1)
      | Ret result \<Rightarrow>
          (let m2 = print (''Node.js found: '' @ strip (stdout result)) m1;
               (r2, m3) = subprocess_run_shell w ''npm --version'' True (environ m2) m2
           in case r2 of
                Raise e \<Rightarrow>
                  if is_CalledProcessError_or_FileNotFoundError e then
                    (Ret True,
                     print
                       ''npm check failed, but continuing (npm should work during installation)''
                       m3)
                  else (Raise e, m3)
              | Ret result2 \<Rightarrow> (Ret True, print (''npm found: v'' @ strip (stdout result2)) m3)))"

text \<open>The pictographs of the batch file, as the bytes of their UTF-8 encoding.\<close>

definition rocket :: string where
  "rocket = [CHR 0xF0, CHR 0x9F, CHR 0x9A, CHR 0x80]"

definition globe :: string where
  "globe = [CHR 0xF0, CHR 0x9F, CHR 0x8C, CHR 0x90]"

definition bust :: string where
  "bust = [CHR 0xF0, CHR 0x9F, CHR 0x91, CHR 0xA4]"

definition stop_button :: string where
  "stop_button = [CHR 0xE2, CHR 0x8F, CHR 0xB9, CHR 0xEF, CHR 0xB8, CHR 0x8F]"

definition start_courier_system_bat :: "installer \<Rightarrow> string" where
  "start_courier_system_bat s =
     unlines
       [''@echo off'',
        ''cd /d '' @ dq @ project_dir s @ dq,
        ''echo '' @ replicate 60 (CHR ''=''),
        ''echo '' @ rocket @ '' Starting Courier Management System'',
        ''echo '' @ replicate 60 (CHR ''=''),
        ''echo '' @ globe @ '' Web interface: http://localhost:5000'',
        ''echo '' @ bust @ '' First login creates admin user automatically'',
        ''echo '' @ stop_button @ ''  Press Ctrl+C to stop the server'',
        ''echo '' @ replicate 60 (CHR ''=''),
        ''echo.'',
        ''set NODE_ENV=development'',
        ''set PORT=5000'',
        ''set DATABASE_URL='' @ database_url s,
        ''npx tsx server/index.ts'',
        ''pause'']"

definition wif_create_batch_files :: "world \<Rightarrow> machine \<Rightarrow> unit res \<times> machine" where
  "wif_create_batch_files w m =
     and_then
       (write_file w (path_join (project_dir (self m)) ''start_courier_system.bat'')
          (start_courier_system_bat (self m))
          (print ''Creating startup batch files...'' m))
       (\<lambda>_ m1.
          (Ret (),
           prints [''Created: start_courier_system.bat'',
                   ''   Double-click this file to start the application anytime!''] m1))"

definition wif_install_npm_dependencies :: "world \<Rightarrow> machine \<Rightarrow> bool res \<times> machine" where
  "wif_install_npm_dependencies w m =
     (let m1 = print ''Installing npm dependencies...'' m in
      if \<not> path_exists w (path_join (project_dir (self m1)) ''package.json'') then
        (Ret False, print (''package.json not found in '' @ project_dir (self m1)) m1)
      else
        (let (r, m2) = run_command w ''npm install'' True None m1 in
         case r of
           Ret _ \<Rightarrow> (Ret True, print ''npm dependencies installed successfully'' m2)
         | Raise e \<Rightarrow>
             if is_CalledProcessError e then
               (Ret False,
                prints
                  [''Failed to install npm dependencies: '' @ exn_text w e,
                   ''If you see build errors, you may need to install Microsoft C++ Build Tools'',
                   ''   Download from: https://visualstudio.microsoft.com/visual-cpp-build-tools/'']
                  m2)
             else (Raise e, m2)))"

text \<open>\<^verbatim>\<open>create_database_tables\<close>: the schema push, and once more with \<^verbatim>\<open>--force\<close> when the
  first push fails.\<close>

definition wif_create_database_tables :: "world \<Rightarrow> machine \<Rightarrow> bool res \<times> machine" where
  "wif_create_database_tables w m =
     (let m1 = print ''Creating database tables...'' m;
          env = ((environ m1)(''NODE_ENV'' \<mapsto> ''development''))
                  (''DATABASE_URL'' \<mapsto> database_url (self m1));
          (r, m2) = run_command w ''npm run db:push'' True (Some env) m1
      in case r of
           Ret _ \<Rightarrow>
             (Ret True,
              prints [''Database tables created successfully!'',
                      ''Created tables: users, departments, couriers, sessions, fields, and more...'']
                m2)
         | Raise e \<Rightarrow>
             if is_CalledProcessError e then
               (let m3 = prints [''Database migration had issues: '' @ exn_text w e,
                                 ''Trying with force flag...''] m2;
                    (r', m4) = run_command w ''npm run db:push -- --force'' True (Some env) m3
                in case r' of
                     Ret _ \<Rightarrow> (Ret True, print ''Database tables created with force flag!'' m4)
                   | Raise e' \<Rightarrow>
                       if is_CalledProcessError e' then
                         (Ret False,
                          print (''Database table creation failed: '' @ exn_text w e') m4)
                       else (Raise e', m4))
             else (Raise e, m2))"

definition wif_start_application :: "world \<Rightarrow> machine \<Rightarrow> unit res \<times> machine" where
  "wif_start_application w m =
     (let m1 = prints
             [''Starting the Courier Management System...'',
              ''Starting server...'',
              ''Application will be available at: http://localhost:5000'',
              ''First login will automatically create admin user'',
              ''Press Ctrl+C to stop the server'',
              replicate 60 (CHR ''-'')] m;
          (r, m2) = popen_and_stream w ''npx tsx server/index.ts'' m1
      in case r of
           Ret _ \<Rightarrow> (Ret (), m2)
         | Raise e \<Rightarrow>
             if is_Exception e then
               (Ret (), print (''Failed to start application: '' @ exn_text w e) m2)
             else (Raise e, m2))"

text \<open>Lines 343 to 372 of \<^verbatim>\<open>run_installation\<close>, the test of the start: the server is
  started and polled after three seconds; when it still runs it is stopped, and when
  it has ended what it wrote is printed. Every exception ends in a warning.\<close>

definition wif_startup_test :: "world \<Rightarrow> machine \<Rightarrow> machine" where
  "wif_startup_test w m =
     (let m1 = print ''Testing if application starts correctly...'' m;
          m2 = (emit (Popen ''npx tsx server/index.ts'') m1)\<lparr>nproc := Suc (nproc m1)\<rparr>
      in case proc w (nproc m1) of
           NotFound \<Rightarrow>
             print (''Could not test application startup: '' @ exn_text w FileNotFoundError) m2
         | Completed rc out err \<Rightarrow>
             (let m3 = emit (Io ''time.sleep(3)'') m2 in
              if stays_up w (nproc m1) then
                emit (Io ''process.terminate'') (print ''Application startup test successful!'' m3)
              else
                prints [''Application startup test failed:'', ''Output: '' @ out,
                        ''Error: '' @ err] m3))"

text \<open>Lines 299 to 388 of \<^verbatim>\<open>run_installation\<close>: the steps after the probe for
  Node.js.\<close>

definition wif_run_installation_steps :: "world \<Rightarrow> machine \<Rightarrow> bool res \<times> machine" where
  "wif_run_installation_steps w m =
     and_then (wif_setup_database w (banner 60 ''SETTING UP DATABASE'' m))
     (\<lambda>db m1.
        if \<not> db then (Ret False, print ''Database setup failed'' m1)
        else
     and_then (wif_install_npm_dependencies w (banner 60 ''INSTALLING DEPENDENCIES'' m1))
     (\<lambda>deps m2.
        if \<not> deps then (Ret False, print ''Dependency installation failed'' m2)
        else
     and_then (wif_create_database_tables w (banner 60 ''CREATING DATABASE TABLES'' m2))
     (\<lambda>tables m3.
        if \<not> tables then (Ret False, print ''Table creation failed'' m3)
        else
     and_then
       (wif_create_batch_files w
          (prints
             [''Courier Management System is ready!'',
              ''Project location: '' @ project_dir (self m3),
              ''Database: PostgreSQL (localhost)'',
              ''Tables: All 15+ tables created successfully'',
              ''URL: http://localhost:5000'',
              ''First login automatically creates admin user'']
             (banner 60 ''INSTALLATION COMPLETE!'' m3)))
     (\<lambda>_ m4.
        (let m5 = wif_startup_test w (banner 60 ''TESTING APPLICATION STARTUP'' m4);
             (a, m6) = ask w (nl @ ''Start the application now for real use? (y/n): '') m5;
             choice = strip (lower a)
         in if choice \<in> set [''y'', ''yes'', ''''] then
              and_then (wif_start_application w (banner 60 ''STARTING APPLICATION'' m6))
                (\<lambda>_ m7. (Ret True, m7))
            else
              (Ret True,
               prints
                 [nl @ ''To start later:'',
                  ''   Double-click: start_courier_system.bat'',
                  ''   Or run in Command Prompt:'',
                  ''      cd '' @ dq @ project_dir (self m6) @ dq,
                  ''      npx tsx server/index.ts''] m6))))))"

text \<open>The whole of \<^verbatim>\<open>run_installation\<close> of \<^verbatim>\<open>windows_installer_fixed.py\<close>: without
  \<^verbatim>\<open>package.json\<close>, and without Node.js, the run stops with advice; the script installs
  neither.\<close>

definition wif_run_installation :: "world \<Rightarrow> machine \<Rightarrow> bool res \<times> machine" where
  "wif_run_installation w m =
     (let m1 = prints [replicate 70 (CHR ''=''),
                       ''Courier Management System - Windows Installer (FIXED v2)'',
                       replicate 70 (CHR ''='')] m
      in if \<not> path_exists w (path_join (project_dir (self m1)) ''package.json'') then
           (Ret False,
            prints [''package.json not found in current directory'',
                    ''Current directory: '' @ project_dir (self m1),
                    ''Please run this installer from the Courier Management System project folder'']
              m1)
         else
           and_then (wif_check_node_installed w m1)
           (\<lambda>node m2.
              if \<not> node then
                (Ret False,
                 prints [''Node.js not found. Please install Node.js first:'',
                         ''   1. Go to https://nodejs.org/'',
                         ''   2. Download and install Node.js LTS version'',
                         ''   3. Restart this script''] m2)
              else wif_run_installation_steps w m2))"

subsection \<open>Reading the trace\<close>

text \<open>The child processes a run has started, its prompts, what it has printed, and
  everything it has done but print.\<close>

abbreviation ran :: "machine \<Rightarrow> event list" where
  "ran m \<equiv> filter is_Run (trace m)"

abbreviation asked :: "machine \<Rightarrow> event list" where
  "asked m \<equiv> filter is_Ask (trace m)"

abbreviation acts :: "machine \<Rightarrow> event list" where
  "acts m \<equiv> filter (\<lambda>e. \<not> is_Print e) (trace m)"

fun printed :: "event list \<Rightarrow> string list" where
  "printed [] = []"
| "printed (Print s # es) = s # printed es"
| "printed (_ # es) = printed es"

fun commands :: "event list \<Rightarrow> string list" where
  "commands [] = []"
| "commands (Run c _ # es) = c # commands es"
| "commands (_ # es) = commands es"

text \<open>The events of a run from the machine \<open>m\<close> to the machine \<open>m'\<close>.\<close>

definition new_events :: "machine \<Rightarrow> machine \<Rightarrow> event list" where
  "new_events m m' = drop (length (trace m)) (trace m')"

text \<open>What \<^verbatim>\<open>add_to_path\<close> adds to the trace: the registry is read; when the path is
  new, the registry is written and the PATH of the process extended; the first of
  these to raise ends in the warning.\<close>

definition add_to_path_events :: "world \<Rightarrow> string \<Rightarrow> machine \<Rightarrow> event list" where
  "add_to_path_events w path m =
     (if io_fails w ''winreg.QueryValueEx'' then
        [Print (''Failed to add to PATH: '' @ exn_text w OSError)]
      else
        Io ''winreg.QueryValueEx'' #
          (if str_in path (registry_path m) then []
           else if io_fails w ''winreg.SetValueEx'' then
             [Print (''Failed to add to PATH: '' @ exn_text w OSError)]
           else
             Io ''winreg.SetValueEx'' #
               (case environ m ''PATH'' of
                  None \<Rightarrow> [Print (''Failed to add to PATH: '' @ exn_text w KeyError)]
                | Some p \<Rightarrow> [Print (''Added '' @ path @ '' to PATH'')])))"

text \<open>The \<^verbatim>\<open>PGPASSWORD\<close> values the child processes were given.\<close>

fun passwords :: "event list \<Rightarrow> string option list" where
  "passwords [] = []"
| "passwords (Run _ pw # es) = pw # passwords es"
| "passwords (_ # es) = passwords es"

subsection \<open>Example machines and worlds\<close>

text \<open>The installer objects as the three constructors build them, in a project
  directory \<^verbatim>\<open>C:\courier\<close>, and the machine at the start of a run.\<close>

definition example_dir :: string where
  "example_dir = ''C:'' @ bs @ ''courier''"

definition wi_init :: installer where
  "wi_init = \<lparr>node_version = ''20.11.0'', project_dir = example_dir, db_name = ''LMF'',
     db_user = ''postgres'', db_password = ''root'', db_host = ''localhost'',
     db_port = ''5432''\<rparr>"

definition wic_init :: installer where
  "wic_init = \<lparr>node_version = ''20.11.0'', project_dir = example_dir, db_name = ''LMF'',
     db_user = ''postgres'', db_password = ''Golightgo'', db_host = ''localhost'',
     db_port = ''5432''\<rparr>"

definition wif_init :: installer where
  "wif_init = \<lparr>node_version = ''22.19.0'', project_dir = example_dir,
     db_name = ''courier_cms'', db_user = ''postgres'', db_password = ''root'',
     db_host = ''localhost'', db_port = ''5432''\<rparr>"

definition start :: "installer \<Rightarrow> machine" where
  "start s = \<lparr>self = s,
     environ = [''PATH'' \<mapsto> ''C:'' @ bs @ ''Windows'',
                ''ProgramFiles'' \<mapsto> ''C:'' @ bs @ ''Program Files''],
     files = Map.empty, registry_path = ''C:'' @ bs @ ''Windows'', trace = [], nproc = 0,
     nask = 0\<rparr>"

text \<open>A world in which every child process ends with return code 0 and no output, the
  user answers every prompt with the Enter key, no library call raises and every path
  exists.\<close>

definition quiet_world :: world where
  "quiet_world = \<lparr>proc = (\<lambda>n. Completed 0 [] []), answer = (\<lambda>n. []), rand = (\<lambda>i. i),
     admin = True, path_exists = (\<lambda>p. True), path_isdir = (\<lambda>p. True),
     listdir = (\<lambda>p. Some []), io_fails = (\<lambda>op. False),
     tempdir = ''C:'' @ bs @ ''Temp'', tmp_name = ''tmp0'', argv = [''windows_installer.py''],
     executable = ''python.exe'', catalog = [''postgres''], pg_message = ''connection refused'',
     exn_text = (\<lambda>e. ''error''), stays_up = (\<lambda>n. True)\<rparr>"

text \<open>The server refuses the password twice.\<close>

definition auth_failure :: proc_outcome where
  "auth_failure =
     Completed 2 []
       (''psql: error: FATAL:  password authentication failed for user '' @ dq @ ''postgres''
          @ dq)"

definition two_auth_failures :: world where
  "two_auth_failures = quiet_world\<lparr>proc := (\<lambda>n. auth_failure), answer := (\<lambda>n. ''secret'')\<rparr>"

text \<open>What \<^verbatim>\<open>run_command\<close> prints once the child process is over.\<close>

fun run_command_report :: "string \<Rightarrow> bool \<Rightarrow> proc_outcome \<Rightarrow> event list" where
  "run_command_report cmd check NotFound = []"
| "run_command_report cmd check (Completed rc out err) =
     (if check \<and> rc \<noteq> 0 then [Print (''Command failed: '' @ cmd), Print (''Error: '' @ err)]
      else if strip out \<noteq> [] then [Print (strip out)] else [])"

text \<open>What \<^verbatim>\<open>subprocess.run\<close> returns or raises for an outcome of the child.\<close>

fun run_result :: "bool \<Rightarrow> proc_outcome \<Rightarrow> completed res" where
  "run_result check NotFound = Raise FileNotFoundError"
| "run_result check (Completed rc out err) =
     (if check \<and> rc \<noteq> 0 then Raise (CalledProcessError rc out err)
      else Ret \<lparr>returncode = rc, stdout = out, stderr = err\<rparr>)"

text \<open>Worlds in which no program is found, and in which every program fails.\<close>

definition nothing_installed :: world where
  "nothing_installed = quiet_world\<lparr>proc := (\<lambda>n. NotFound)\<rparr>"

definition everything_fails :: world where
  "everything_fails =
     quiet_world\<lparr>proc := (\<lambda>n. Completed 1 [] ''FATAL:  password authentication failed'')\<rparr>"

text \<open>A machine with PostgreSQL 9 and PostgreSQL 16 under the first base path, and one
  whose only version directory has no \<^verbatim>\<open>psql.exe\<close>.\<close>

definition postgres_base :: string where
  "postgres_base = ''C:'' @ bs @ ''Program Files'' @ bs @ ''PostgreSQL''"

definition old_and_new :: world where
  "old_and_new =
     quiet_world\<lparr>listdir := (\<lambda>p. if p = postgres_base then Some [''16'', ''9''] else None)\<rparr>"

definition without_psql :: world where
  "without_psql =
     quiet_world\<lparr>listdir := (\<lambda>p. if p = postgres_base then Some [''16''] else None),
       path_exists := (\<lambda>p. p = postgres_base \<or> p = bin_path postgres_base ''16'')\<rparr>"

text \<open>A server that has a database \<^verbatim>\<open>courier_cms_archive\<close> and none named \<^verbatim>\<open>courier_cms\<close>.
  The second child process of the database step, \<^verbatim>\<open>psql -lqt\<close>, writes one row for each
  database of the catalog.\<close>

definition lqt_row :: "string \<Rightarrow> string" where
  "lqt_row name = '' '' @ name @ '' | postgres | UTF8 | en_US.UTF-8 | en_US.UTF-8 | '' @ nl"

definition psql_lqt :: "string list \<Rightarrow> string" where
  "psql_lqt names = concat (map lqt_row names)"

definition similar_name :: world where
  "similar_name =
     quiet_world\<lparr>catalog := [''courier_cms_archive'', ''postgres''],
       proc := (\<lambda>n. if n = 1 then Completed 0 (psql_lqt [''courier_cms_archive'', ''postgres'']) []
                     else Completed 0 [] [])\<rparr>"

text \<open>A machine without Node.js, and a user without administrator rights.\<close>

definition unprivileged :: world where
  "unprivileged = nothing_installed\<lparr>admin := False\<rparr>"

subsection \<open>The outcomes of the install methods\<close>

text \<open>The package manager succeeds when \<^verbatim>\<open>winget\<close>, the next child process, is found and
  ends with return code 0. The MSI method of \<^verbatim>\<open>windows_installer.py\<close> succeeds when none of
  its steps raises: the temporary file, the download, \<^verbatim>\<open>msiexec\<close> (the child process after
  \<^verbatim>\<open>winget\<close>) and the removal of the file. The direct download of
  \<^verbatim>\<open>windows_installer_complete.py\<close> succeeds when none of its steps raises: the download,
  the unpacking, the look-up of \<^verbatim>\<open>ProgramFiles\<close>, the removal of an older directory and
  the move. Its \<^verbatim>\<open>finally\<close> clause raises when the archive is there and cannot be
  removed.\<close>

definition exits_zero :: "proc_outcome \<Rightarrow> bool" where
  "exits_zero p = (case p of NotFound \<Rightarrow> False | Completed rc out err \<Rightarrow> rc = 0)"







section \<open>Properties\<close>

subsection \<open>What each primitive does to the machine\<close>

lemma commands_append [simp]: "commands (xs @ ys) = commands xs @ commands ys"
  by (induction xs rule: commands.induct) simp_all

lemma printed_append [simp]: "printed (xs @ ys) = printed xs @ printed ys"
  by (induction xs rule: printed.induct) simp_all

lemma passwords_append [simp]: "passwords (xs @ ys) = passwords xs @ passwords ys"
  by (induction xs rule: passwords.induct) simp_all

lemma commands_filter: "commands (filter is_Run xs) = commands xs"
  by (induction xs rule: commands.induct) simp_all

lemma commands_ran: "commands (ran m) = commands (trace m)"
  by (simp add: commands_filter)

lemma run_command_report_simps [simp]:
  "filter is_Run (run_command_report cmd check p) = []"
  "filter is_Ask (run_command_report cmd check p) = []"
  "filter (\<lambda>e. \<not> is_Print e) (run_command_report cmd check p) = []"
  "commands (run_command_report cmd check p) = []"
  "passwords (run_command_report cmd check p) = []"
  by (cases p; simp)+

lemma map_Print_simps [simp]:
  "filter is_Run (map Print ls) = []"
  "filter is_Ask (map Print ls) = []"
  "filter (\<lambda>e. \<not> is_Print e) (map Print ls) = []"
  "commands (map Print ls) = []"
  "passwords (map Print ls) = []"
  "printed (map Print ls) = ls"
  by (induction ls) simp_all

lemma emit_simps [simp]:
  "trace (emit e m) = trace m @ [e]" "self (emit e m) = self m"
  "environ (emit e m) = environ m" "nproc (emit e m) = nproc m" "nask (emit e m) = nask m"
  "files (emit e m) = files m" "registry_path (emit e m) = registry_path m"
  by (simp_all add: emit_def)

lemma print_simps [simp]:
  "trace (print s m) = trace m @ [Print s]" "self (print s m) = self m"
  "environ (print s m) = environ m" "nproc (print s m) = nproc m" "nask (print s m) = nask m"
  "files (print s m) = files m" "registry_path (print s m) = registry_path m"
  by (simp_all add: print_def)

lemma prints_simps [simp]:
  "trace (prints ls m) = trace m @ map Print ls" "self (prints ls m) = self m"
  "environ (prints ls m) = environ m" "nproc (prints ls m) = nproc m"
  "nask (prints ls m) = nask m" "files (prints ls m) = files m"
  "registry_path (prints ls m) = registry_path m"
  unfolding prints_def by (induction ls arbitrary: m) simp_all

lemma setenv_simps [simp]:
  "trace (setenv k v m) = trace m" "self (setenv k v m) = self m"
  "environ (setenv k v m) = (environ m)(k \<mapsto> v)" "nproc (setenv k v m) = nproc m"
  "nask (setenv k v m) = nask m" "files (setenv k v m) = files m"
  "registry_path (setenv k v m) = registry_path m"
  by (simp_all add: setenv_def)

lemma unsetenv_simps [simp]:
  "trace (unsetenv k m) = trace m" "self (unsetenv k m) = self m"
  "environ (unsetenv k m) = (environ m)(k := None)" "nproc (unsetenv k m) = nproc m"
  "nask (unsetenv k m) = nask m" "files (unsetenv k m) = files m"
  "registry_path (unsetenv k m) = registry_path m"
  by (simp_all add: unsetenv_def)

lemma ask_simps [simp]:
  "fst (ask w p m) = answer w (nask m)"
  "trace (snd (ask w p m)) = trace m @ [Ask p]"
  "self (snd (ask w p m)) = self m" "environ (snd (ask w p m)) = environ m"
  "nproc (snd (ask w p m)) = nproc m" "nask (snd (ask w p m)) = Suc (nask m)"
  "files (snd (ask w p m)) = files m" "registry_path (snd (ask w p m)) = registry_path m"
  by (simp_all add: ask_def)

lemma subprocess_run_simps [simp]:
  "fst (subprocess_run w cmd check env m) = run_result check (proc w (nproc m))"
  "trace (snd (subprocess_run w cmd check env m)) = trace m @ [Run cmd (env ''PGPASSWORD'')]"
  "self (snd (subprocess_run w cmd check env m)) = self m"
  "environ (snd (subprocess_run w cmd check env m)) = environ m"
  "nproc (snd (subprocess_run w cmd check env m)) = Suc (nproc m)"
  "nask (snd (subprocess_run w cmd check env m)) = nask m"
  "files (snd (subprocess_run w cmd check env m)) = files m"
  "registry_path (snd (subprocess_run w cmd check env m)) = registry_path m"
  by (cases "proc w (nproc m)"; simp add: subprocess_run_def Let_def)+

lemma subprocess_run_shell_simps [simp]:
  "fst (subprocess_run_shell w cmd check env m) =
     run_result check (shell_outcome cmd (proc w (nproc m)))"
  "trace (snd (subprocess_run_shell w cmd check env m)) = trace m @ [Run cmd (env ''PGPASSWORD'')]"
  "self (snd (subprocess_run_shell w cmd check env m)) = self m"
  "environ (snd (subprocess_run_shell w cmd check env m)) = environ m"
  "nproc (snd (subprocess_run_shell w cmd check env m)) = Suc (nproc m)"
  "nask (snd (subprocess_run_shell w cmd check env m)) = nask m"
  "files (snd (subprocess_run_shell w cmd check env m)) = files m"
  "registry_path (snd (subprocess_run_shell w cmd check env m)) = registry_path m"
  by (cases "proc w (nproc m)"; simp add: subprocess_run_shell_def Let_def)+

lemma run_command_simps [simp]:
  "fst (run_command w cmd check env m) =
     run_result check (shell_outcome cmd (proc w (nproc m)))"
  "trace (snd (run_command w cmd check env m)) =
     trace m @ [Print (''Running: '' @ cmd),
                Run cmd ((case env of None \<Rightarrow> environ m | Some e \<Rightarrow> e) ''PGPASSWORD'')]
       @ run_command_report cmd check (shell_outcome cmd (proc w (nproc m)))"
  "self (snd (run_command w cmd check env m)) = self m"
  "environ (snd (run_command w cmd check env m)) = environ m"
  "nproc (snd (run_command w cmd check env m)) = Suc (nproc m)"
  "nask (snd (run_command w cmd check env m)) = nask m"
  "files (snd (run_command w cmd check env m)) = files m"
  "registry_path (snd (run_command w cmd check env m)) = registry_path m"
  by (cases "proc w (nproc m)"; cases env;
      simp add: run_command_def subprocess_run_shell_def Let_def print_def emit_def)+

lemma io_simps [simp]:
  "fst (io w op m) = (if io_fails w op then Raise OSError else Ret ())"
  "trace (snd (io w op m)) = trace m @ (if io_fails w op then [] else [Io op])"
  "self (snd (io w op m)) = self m" "environ (snd (io w op m)) = environ m"
  "nproc (snd (io w op m)) = nproc m" "nask (snd (io w op m)) = nask m"
  "files (snd (io w op m)) = files m" "registry_path (snd (io w op m)) = registry_path m"
  by (simp_all add: io_def)

lemma pg_simps [simp]:
  "fst (pg w stmt m) = (if io_fails w stmt then Raise (Psycopg2Error (pg_message w)) else Ret ())"
  "trace (snd (pg w stmt m)) = trace m @ (if io_fails w stmt then [] else [Sql stmt])"
  "self (snd (pg w stmt m)) = self m" "environ (snd (pg w stmt m)) = environ m"
  "nproc (snd (pg w stmt m)) = nproc m" "nask (snd (pg w stmt m)) = nask m"
  "files (snd (pg w stmt m)) = files m" "registry_path (snd (pg w stmt m)) = registry_path m"
  by (simp_all add: pg_def)

lemma write_file_simps [simp]:
  "fst (write_file w p c m) = (if io_fails w (''open:'' @ p) then Raise OSError else Ret ())"
  "trace (snd (write_file w p c m)) =
     trace m @ (if io_fails w (''open:'' @ p) then [] else [WriteFile p c])"
  "self (snd (write_file w p c m)) = self m" "environ (snd (write_file w p c m)) = environ m"
  "nproc (snd (write_file w p c m)) = nproc m" "nask (snd (write_file w p c m)) = nask m"
  "files (snd (write_file w p c m)) =
     (if io_fails w (''open:'' @ p) then files m else (files m)(p \<mapsto> c))"
  "registry_path (snd (write_file w p c m)) = registry_path m"
  by (simp_all add: write_file_def)

lemma and_then_simps:
  "fst x = Ret a \<Longrightarrow> and_then x f = f a (snd x)"
  "fst x = Raise e \<Longrightarrow> and_then x f = (Raise e, snd x)"
  by (simp_all add: and_then_def)

lemma create_env_file_simps [simp]:
  "fst (create_env_file h w m) =
     (if io_fails w (''open:'' @ env_path (self m)) then Raise OSError else Ret True)"
  "trace (snd (create_env_file h w m)) =
     trace m @ Print ''Creating environment configuration...'' #
       (if io_fails w (''open:'' @ env_path (self m)) then []
        else [WriteFile (env_path (self m)) (unlines (env_lines h (self m) (session_secret w))),
              Print (''Environment file created: '' @ env_path (self m))])"
  "self (snd (create_env_file h w m)) = self m"
  "environ (snd (create_env_file h w m)) = environ m"
  "nproc (snd (create_env_file h w m)) = nproc m"
  "nask (snd (create_env_file h w m)) = nask m"
  "files (snd (create_env_file h w m)) =
     (if io_fails w (''open:'' @ env_path (self m)) then files m
      else (files m)(env_path (self m) \<mapsto> unlines (env_lines h (self m) (session_secret w))))"
  by (simp_all add: create_env_file_def case_prod_beta Let_def)

subsection \<open>The database step of \<^verbatim>\<open>windows_installer_fixed.py\<close>\<close>

lemma psql_password [simp]: "psql (s\<lparr>db_password := pw\<rparr>) = psql s"
  by (simp add: psql_def)

lemma cmd_password [simp]:
  "test_conn_cmd (s\<lparr>db_password := pw\<rparr>) = test_conn_cmd s"
  "check_db_cmd (s\<lparr>db_password := pw\<rparr>) = check_db_cmd s"
  "create_db_cmd (s\<lparr>db_password := pw\<rparr>) = create_db_cmd s"
  by (simp_all add: test_conn_cmd_def check_db_cmd_def create_db_cmd_def)

lemma test_conn_cmd_differs:
  assumes "psql s = psql s'"
  shows "test_conn_cmd s \<noteq> check_db_cmd s'" "test_conn_cmd s \<noteq> create_db_cmd s'"
    "check_db_cmd s' \<noteq> test_conn_cmd s" "create_db_cmd s' \<noteq> test_conn_cmd s"
  using assms by (simp_all add: test_conn_cmd_def check_db_cmd_def create_db_cmd_def dq_def)

lemma wif_ensure_database_simps [simp]:
  "asked (snd (wif_ensure_database w m)) = asked m"
  "self (snd (wif_ensure_database w m)) = self m"
  "environ (snd (wif_ensure_database w m)) = environ m"
  "nask (snd (wif_ensure_database w m)) = nask m"
  by (simp_all add: wif_ensure_database_def wif_create_env_file_def case_prod_beta
      split: res.splits)

lemma wif_ensure_database_tests [simp]:
  "psql s = psql (self m) \<Longrightarrow>
   count_list (commands (trace (snd (wif_ensure_database w m)))) (test_conn_cmd s)
     = count_list (commands (trace m)) (test_conn_cmd s)"
  by (simp add: wif_ensure_database_def wif_create_env_file_def case_prod_beta
      test_conn_cmd_differs split: res.splits)

lemma wif_ensure_database_passwords:
  "set (passwords (trace (snd (wif_ensure_database w m))))
     \<subseteq> set (passwords (trace m)) \<union> {environ m ''PGPASSWORD''}"
  by (auto simp add: wif_ensure_database_def wif_create_env_file_def case_prod_beta
      split: res.splits if_splits)

lemma wif_setup_database_wrap:
  "trace (snd (wif_setup_database w m)) =
     trace (snd (wif_setup_database_try w (print ''Setting up PostgreSQL database...'' m)))
       @ (case fst (wif_setup_database_try w (print ''Setting up PostgreSQL database...'' m)) of
            Raise (CalledProcessError rc out err) \<Rightarrow>
              [Print (''Failed to set up database: '' @ err)]
          | _ \<Rightarrow> [])"
  "fst (wif_setup_database w m) =
     (case fst (wif_setup_database_try w (print ''Setting up PostgreSQL database...'' m)) of
        Raise (CalledProcessError rc out err) \<Rightarrow> Ret False
      | r \<Rightarrow> r)"
  by (simp_all add: wif_setup_database_def case_prod_beta split: res.splits exn.splits)

lemma wif_setup_database_projections [simp]:
  "asked (snd (wif_setup_database w m)) =
     asked (snd (wif_setup_database_try w (print ''Setting up PostgreSQL database...'' m)))"
  "ran (snd (wif_setup_database w m)) =
     ran (snd (wif_setup_database_try w (print ''Setting up PostgreSQL database...'' m)))"
  "commands (trace (snd (wif_setup_database w m))) =
     commands (trace (snd (wif_setup_database_try w (print ''Setting up PostgreSQL database...'' m))))"
  "passwords (trace (snd (wif_setup_database w m))) =
     passwords (trace (snd (wif_setup_database_try w (print ''Setting up PostgreSQL database...'' m))))"
  by (simp_all add: wif_setup_database_wrap split: res.splits exn.splits)

lemma wif_setup_database_try_auth:
  assumes first: "proc w (nproc m) = Completed rc out err"
    and failed: "rc \<noteq> 0"
    and auth: "str_in ''password authentication failed'' (lower err)"
  shows "asked (snd (wif_setup_database_try w m)) =
           asked m @ [Ask (''Enter password for PostgreSQL user '' @ db_user (self m) @ '': '')]"
    and "count_list (commands (trace (snd (wif_setup_database_try w m)))) (test_conn_cmd (self m)) =
           count_list (commands (trace m)) (test_conn_cmd (self m)) + 2"
    and "proc w (Suc (nproc m)) = Completed rc2 out2 err2 \<Longrightarrow> rc2 \<noteq> 0 \<Longrightarrow>
           fst (wif_setup_database_try w m) = Raise (CalledProcessError rc2 out2 err2)
           \<and> ran (snd (wif_setup_database_try w m)) =
               ran m @
                 [Run (test_conn_cmd (self m)) (Some (db_password (self m))),
                  Run (test_conn_cmd (self m)) (Some (answer w (nask m)))]"
proof -
  show "asked (snd (wif_setup_database_try w m)) =
           asked m @ [Ask (''Enter password for PostgreSQL user '' @ db_user (self m) @ '': '')]"
    using assms
    by (simp add: wif_setup_database_try_def case_prod_beta Let_def split: res.splits)
  show "count_list (commands (trace (snd (wif_setup_database_try w m)))) (test_conn_cmd (self m)) =
           count_list (commands (trace m)) (test_conn_cmd (self m)) + 2"
    using assms
    by (simp add: wif_setup_database_try_def case_prod_beta Let_def split: res.splits)
  show "fst (wif_setup_database_try w m) = Raise (CalledProcessError rc2 out2 err2)
           \<and> ran (snd (wif_setup_database_try w m)) =
               ran m @
                 [Run (test_conn_cmd (self m)) (Some (db_password (self m))),
                  Run (test_conn_cmd (self m)) (Some (answer w (nask m)))]"
    if "proc w (Suc (nproc m)) = Completed rc2 out2 err2" "rc2 \<noteq> 0"
    using assms that
    by (simp add: wif_setup_database_try_def case_prod_beta Let_def)
qed

text \<open>C1. When the first connection test of \<^verbatim>\<open>setup_database\<close> in
  \<^verbatim>\<open>windows_installer_fixed.py\<close> ends with a return code other than zero and its error
  output speaks of a failed password authentication, the step prompts for the password
  exactly once and runs the connection test exactly twice, the second time with the
  password just typed; and when the second test fails too, the step returns \<^verbatim>\<open>False\<close>
  and has started no child process but the two tests.\<close>

theorem wif_auth_failure_single_retry:
  assumes first: "proc w (nproc m) = Completed rc out err"
    and failed: "rc \<noteq> 0"
    and auth: "str_in ''password authentication failed'' (lower err)"
  shows "asked (snd (wif_setup_database w m)) =
           asked m @ [Ask (''Enter password for PostgreSQL user '' @ db_user (self m) @ '': '')]
       \<and> count_list (commands (trace (snd (wif_setup_database w m)))) (test_conn_cmd (self m)) =
           count_list (commands (trace m)) (test_conn_cmd (self m)) + 2
       \<and> (\<forall>rc2 out2 err2. proc w (Suc (nproc m)) = Completed rc2 out2 err2 \<and> rc2 \<noteq> 0 \<longrightarrow>
             fst (wif_setup_database w m) = Ret False
           \<and> ran (snd (wif_setup_database w m)) =
               ran m @
                 [Run (test_conn_cmd (self m)) (Some (db_password (self m))),
                  Run (test_conn_cmd (self m)) (Some (answer w (nask m)))])"
proof -
  let ?m0 = "print ''Setting up PostgreSQL database...'' m"
  have first0: "proc w (nproc ?m0) = Completed rc out err"
    using first by simp
  note try_facts = wif_setup_database_try_auth [OF first0 failed auth]
  have asks: "asked (snd (wif_setup_database w m)) =
      asked m @ [Ask (''Enter password for PostgreSQL user '' @ db_user (self m) @ '': '')]"
    using try_facts(1) by simp
  have runs: "count_list (commands (trace (snd (wif_setup_database w m)))) (test_conn_cmd (self m)) =
      count_list (commands (trace m)) (test_conn_cmd (self m)) + 2"
    using try_facts(2) by simp
  have second: "fst (wif_setup_database w m) = Ret False
           \<and> ran (snd (wif_setup_database w m)) =
               ran m @
                 [Run (test_conn_cmd (self m)) (Some (db_password (self m))),
                  Run (test_conn_cmd (self m)) (Some (answer w (nask m)))]"
    if "proc w (Suc (nproc m)) = Completed rc2 out2 err2" "rc2 \<noteq> 0" for rc2 out2 err2
    using try_facts(3) [of rc2 out2 err2] that
    by (simp add: wif_setup_database_wrap(2))
  from asks runs second show ?thesis by blast
qed

lemma auth_failure_detected:
  "str_in ''password authentication failed''
     (lower (''psql: error: FATAL:  password authentication failed for user '' @ dq
               @ ''postgres'' @ dq))"
  by (simp add: lower_def lower_char_def dq_def)

theorem wif_auth_failure_single_retry_witness:
  "fst (wif_setup_database two_auth_failures (start wif_init)) = Ret False
   \<and> asked (snd (wif_setup_database two_auth_failures (start wif_init))) =
       [Ask ''Enter password for PostgreSQL user postgres: '']
   \<and> ran (snd (wif_setup_database two_auth_failures (start wif_init))) =
       [Run (test_conn_cmd wif_init) (Some ''root''),
        Run (test_conn_cmd wif_init) (Some ''secret'')]"
  using wif_auth_failure_single_retry [of two_auth_failures "start wif_init" 2 "[]"
      "''psql: error: FATAL:  password authentication failed for user '' @ dq @ ''postgres'' @ dq"]
    auth_failure_detected
  by (simp add: two_auth_failures_def quiet_world_def auth_failure_def start_def wif_init_def
     )

subsection \<open>The dependency probes\<close>

lemma run_result_Ret:
  "run_result True p = Ret r \<Longrightarrow> \<exists>out err. p = Completed 0 out err"
  by (cases p) (auto split: if_splits)

lemma check_node_installed_result:
  "fst (check_node_installed w m) =
     (case run_result True (proc w (nproc m)) of
        Raise e \<Rightarrow> Ret False
      | Ret r \<Rightarrow>
          (case run_result True (proc w (Suc (nproc m))) of
             Raise e \<Rightarrow> Ret False
           | Ret r' \<Rightarrow> Ret True))"
proof (cases "proc w (nproc m)")
  case NotFound
  then show ?thesis by (simp add: check_node_installed_def case_prod_beta)
next
  case (Completed rc out err)
  then show ?thesis
    by (cases "proc w (Suc (nproc m))")
      (simp_all add: check_node_installed_def case_prod_beta Let_def)
qed

lemma wif_check_node_installed_result:
  "fst (wif_check_node_installed w m) =
     (case run_result True (proc w (nproc m)) of Raise e \<Rightarrow> Ret False | Ret r \<Rightarrow> Ret True)"
proof (cases "proc w (nproc m)")
  case NotFound
  then show ?thesis by (simp add: wif_check_node_installed_def case_prod_beta)
next
  case (Completed rc out err)
  then show ?thesis
    by (cases "proc w (Suc (nproc m))")
      (simp_all add: wif_check_node_installed_def case_prod_beta Let_def)
qed

lemma wic_check_postgres_installed_result:
  "fst (wic_check_postgres_installed w m) =
     (case run_result True (proc w (nproc m)) of Raise e \<Rightarrow> Ret False | Ret r \<Rightarrow> Ret True)"
  by (cases "proc w (nproc m)") (simp_all add: wic_check_postgres_installed_def case_prod_beta)

lemma probe_trace_on_failure:
  assumes "\<And>r. run_result True (proc w (nproc m)) \<noteq> Ret r"
  shows "trace (snd (check_node_installed w m)) =
           trace m @ [Run ''node --version'' (environ m ''PGPASSWORD'')]"
    and "trace (snd (wif_check_node_installed w m)) =
           trace m @ [Run ''node --version'' (environ m ''PGPASSWORD'')]"
    and "trace (snd (wic_check_postgres_installed w m)) =
           trace m @ [Run ''psql --version'' (environ m ''PGPASSWORD'')]"
  using assms
  by (simp_all add: check_node_installed_def wif_check_node_installed_def
      wic_check_postgres_installed_def case_prod_beta split: res.splits)

subsection \<open>The database step of \<^verbatim>\<open>windows_installer_complete.py\<close>\<close>

lemma shell_outcome_Completed:
  "\<exists>rc out err. shell_outcome cmd p = Completed rc out err"
  by (cases p) simp_all

lemma wic_setup_database_trace:
  assumes "shell_outcome (createdb_cmd (self m)) (proc w (nproc m)) = Completed rc out err"
  shows "fst (wic_setup_database w m) = Ret True"
    and "trace (snd (wic_setup_database w m)) =
           trace m @
             [Print ''Setting up PostgreSQL database...'',
              Print ''Waiting for PostgreSQL service...'',
              Io ''time.sleep(10)'',
              Print (''Creating database '' @ sq @ db_name (self m) @ sq @ ''...''),
              Print (''Running: '' @ createdb_cmd (self m)),
              Run (createdb_cmd (self m)) (Some (db_password (self m)))]
             @ (if strip out \<noteq> [] then [Print (strip out)] else [])
             @ [Print (if rc = 0
                       then ''Database '' @ sq @ db_name (self m) @ sq @ '' created successfully''
                       else ''Database might already exist: '' @ err)]"
    and "self (snd (wic_setup_database w m)) = self m"
    and "nask (snd (wic_setup_database w m)) = nask m"
  using assms by (simp_all add: wic_setup_database_def case_prod_beta Let_def)

text \<open>C9. In \<^verbatim>\<open>windows_installer_complete.py\<close>, \<^verbatim>\<open>setup_database\<close> returns \<^verbatim>\<open>True\<close> whatever
  becomes of the \<^verbatim>\<open>createdb\<close> command, which runs through the shell with \<^verbatim>\<open>check=False\<close> and
  so raises nothing. The step starts that one child process, with the password it had
  in \<^verbatim>\<open>PGPASSWORD\<close>, asks the user nothing and keeps its password. Its last message is
  that the database was created when the return code is 0, and otherwise, whatever the
  cause, that the database might already exist, followed by the error output of the
  command.\<close>

theorem wic_setup_database_always_succeeds:
  "fst (wic_setup_database w m) = Ret True
   \<and> ran (snd (wic_setup_database w m)) =
       ran m @ [Run (createdb_cmd (self m)) (Some (db_password (self m)))]
   \<and> asked (snd (wic_setup_database w m)) = asked m
   \<and> self (snd (wic_setup_database w m)) = self m
   \<and> (\<forall>rc out err.
         shell_outcome (createdb_cmd (self m)) (proc w (nproc m)) = Completed rc out err \<longrightarrow>
         trace (snd (wic_setup_database w m)) =
           trace m @
             [Print ''Setting up PostgreSQL database...'',
              Print ''Waiting for PostgreSQL service...'',
              Io ''time.sleep(10)'',
              Print (''Creating database '' @ sq @ db_name (self m) @ sq @ ''...''),
              Print (''Running: '' @ createdb_cmd (self m)),
              Run (createdb_cmd (self m)) (Some (db_password (self m)))]
             @ (if strip out \<noteq> [] then [Print (strip out)] else [])
             @ [Print (if rc = 0
                       then ''Database '' @ sq @ db_name (self m) @ sq @ '' created successfully''
                       else ''Database might already exist: '' @ err)])"
proof -
  obtain rc out err
    where p: "shell_outcome (createdb_cmd (self m)) (proc w (nproc m)) = Completed rc out err"
    using shell_outcome_Completed by blast
  note facts = wic_setup_database_trace [OF p]
  have "ran (snd (wic_setup_database w m)) =
      ran m @ [Run (createdb_cmd (self m)) (Some (db_password (self m)))]"
    "asked (snd (wic_setup_database w m)) = asked m"
    unfolding facts(2) by simp_all
  with facts(1,3) wic_setup_database_trace(2) show ?thesis by blast
qed

theorem wic_setup_database_always_succeeds_witness:
  "fst (wic_setup_database everything_fails (start wic_init)) = Ret True
   \<and> ran (snd (wic_setup_database everything_fails (start wic_init))) =
       [Run (createdb_cmd wic_init) (Some ''Golightgo'')]
   \<and> asked (snd (wic_setup_database everything_fails (start wic_init))) = []
   \<and> last (trace (snd (wic_setup_database everything_fails (start wic_init)))) =
       Print ''Database might already exist: FATAL:  password authentication failed''
   \<and> fst (wic_setup_database nothing_installed (start wic_init)) = Ret True
   \<and> last (trace (snd (wic_setup_database nothing_installed (start wic_init)))) =
       Print (''Database might already exist: '' @ not_recognized (createdb_cmd wic_init))"
proof -
  note fails = wic_setup_database_always_succeeds [of everything_fails "start wic_init"]
  note missing = wic_setup_database_always_succeeds [of nothing_installed "start wic_init"]
  have f: "shell_outcome (createdb_cmd (self (start wic_init)))
             (proc everything_fails (nproc (start wic_init)))
           = Completed 1 [] ''FATAL:  password authentication failed''"
    by (simp add: everything_fails_def quiet_world_def)
  have n: "shell_outcome (createdb_cmd (self (start wic_init)))
             (proc nothing_installed (nproc (start wic_init)))
           = Completed 1 [] (not_recognized (createdb_cmd (self (start wic_init))))"
    by (simp add: nothing_installed_def quiet_world_def)
  from fails [THEN conjunct2, THEN conjunct2, THEN conjunct2, THEN conjunct2, rule_format, OF f]
  have t1: "last (trace (snd (wic_setup_database everything_fails (start wic_init)))) =
       Print ''Database might already exist: FATAL:  password authentication failed''"
    by (simp add: strip_def)
  from missing [THEN conjunct2, THEN conjunct2, THEN conjunct2, THEN conjunct2, rule_format, OF n]
  have t2: "last (trace (snd (wic_setup_database nothing_installed (start wic_init)))) =
       Print (''Database might already exist: '' @ not_recognized (createdb_cmd wic_init))"
    by (simp add: strip_def start_def)
  from fails have "fst (wic_setup_database everything_fails (start wic_init)) = Ret True
      \<and> ran (snd (wic_setup_database everything_fails (start wic_init))) =
       [Run (createdb_cmd wic_init) (Some ''Golightgo'')]
      \<and> asked (snd (wic_setup_database everything_fails (start wic_init))) = []"
    by (simp add: start_def wic_init_def)
  moreover from missing have "fst (wic_setup_database nothing_installed (start wic_init)) = Ret True"
    by simp
  ultimately show ?thesis using t1 t2 by simp
qed

subsection \<open>\<^verbatim>\<open>find_postgres_bin_path\<close>\<close>

lemma find_in_versions_Some:
  "find_in_versions w b vs = Some p \<Longrightarrow>
     \<exists>v \<in> set vs. p = bin_path b v \<and> has_psql w b v"
  by (induction vs) (auto split: if_splits)

lemma find_in_versions_None:
  "find_in_versions w b vs = None \<longleftrightarrow> (\<forall>v \<in> set vs. \<not> has_psql w b v)"
  by (induction vs) auto

lemma find_in_versions_greatest:
  "sorted (rev vs) \<Longrightarrow> find_in_versions w b vs = Some p \<Longrightarrow>
     \<exists>v \<in> set vs. p = bin_path b v \<and> has_psql w b v
       \<and> (\<forall>v' \<in> set vs. has_psql w b v' \<longrightarrow> v' \<le> v)"
proof (induction vs)
  case Nil
  then show ?case by simp
next
  case (Cons v vs)
  from Cons.prems(1) have below: "\<forall>x \<in> set vs. x \<le> v" and rest: "sorted (rev vs)"
    by (auto simp: sorted_append)
  show ?case
  proof (cases "has_psql w b v")
    case True
    with Cons.prems(2) below show ?thesis by auto
  next
    case False
    with Cons.prems(2) have "find_in_versions w b vs = Some p" by simp
    from Cons.IH [OF rest this] False show ?thesis by auto
  qed
qed

lemma sorted_versions_props:
  "sorted (rev (sorted_versions w b ds))"
  "set (sorted_versions w b ds) = {d \<in> set ds. path_isdir w (path_join b d)}"
  by (auto simp: sorted_versions_def)

lemma find_in_base_paths_Some:
  "find_in_base_paths w bps = Some p \<Longrightarrow>
     \<exists>b \<in> set bps. \<exists>ds. path_exists w b \<and> listdir w b = Some ds
       \<and> find_in_versions w b (sorted_versions w b ds) = Some p"
  by (induction bps) (auto split: if_splits option.splits)

lemma find_in_base_paths_None:
  "find_in_base_paths w bps = None \<Longrightarrow> b \<in> set bps \<Longrightarrow> path_exists w b \<Longrightarrow>
     listdir w b = Some ds \<Longrightarrow> find_in_versions w b (sorted_versions w b ds) = None"
  by (induction bps) (auto split: if_splits option.splits)

lemma nine_before_sixteen:
  "rev (sort [''16'', ''9'']) = [''9'', ''16'']" "rev (sort [''9'', ''16'']) = [''9'', ''16'']"
  by simp_all

text \<open>C10. \<^verbatim>\<open>find_postgres_bin_path\<close> takes the version directories of a base path in
  descending order of their names as strings: with the directories \<^verbatim>\<open>9\<close> and \<^verbatim>\<open>16\<close>
  under the first base path and \<^verbatim>\<open>psql.exe\<close> in \<^verbatim>\<open>9\bin\<close>, the result is \<^verbatim>\<open>9\bin\<close>. A path
  it returns is the \<^verbatim>\<open>bin\<close> directory of a version directory that holds \<^verbatim>\<open>psql.exe\<close>, and
  no directory of the same base path with a greater name holds one; it returns \<^verbatim>\<open>None\<close>
  only when no version directory of a readable base path holds \<^verbatim>\<open>psql.exe\<close>.\<close>

theorem find_postgres_bin_path_string_order:
  fixes w :: world
  defines "b1 \<equiv> ''C:'' @ bs @ ''Program Files'' @ bs @ ''PostgreSQL''"
  shows "(path_exists w b1 \<and> (listdir w b1 = Some [''9'', ''16''] \<or> listdir w b1 = Some [''16'', ''9''])
            \<and> path_isdir w (path_join b1 ''9'') \<and> path_isdir w (path_join b1 ''16'')
            \<and> has_psql w b1 ''9''
          \<longrightarrow> find_postgres_bin_path w = Some (bin_path b1 ''9''))
       \<and> (\<forall>p. find_postgres_bin_path w = Some p \<longrightarrow>
             path_exists w p \<and> path_exists w (path_join p ''psql.exe'')
           \<and> (\<exists>b \<in> set base_paths. \<exists>ds. \<exists>v \<in> set ds.
                 path_exists w b \<and> listdir w b = Some ds \<and> path_isdir w (path_join b v)
               \<and> p = bin_path b v
               \<and> (\<forall>v' \<in> set ds. path_isdir w (path_join b v') \<and> has_psql w b v' \<longrightarrow> v' \<le> v)))
       \<and> (find_postgres_bin_path w = None \<longrightarrow>
             (\<forall>b \<in> set base_paths. \<forall>ds. path_exists w b \<and> listdir w b = Some ds \<longrightarrow>
                (\<forall>v \<in> set ds. path_isdir w (path_join b v) \<longrightarrow> \<not> has_psql w b v)))"
proof (intro conjI allI impI ballI)
  assume h: "path_exists w b1 \<and> (listdir w b1 = Some [''9'', ''16''] \<or> listdir w b1 = Some [''16'', ''9''])
            \<and> path_isdir w (path_join b1 ''9'') \<and> path_isdir w (path_join b1 ''16'')
            \<and> has_psql w b1 ''9''"
  then have "sorted_versions w b1 [''9'', ''16''] = [''9'', ''16'']"
    "sorted_versions w b1 [''16'', ''9''] = [''9'', ''16'']"
    unfolding sorted_versions_def by (simp_all only: filter.simps if_True nine_before_sixteen)
  with h show "find_postgres_bin_path w = Some (bin_path b1 ''9'')"
    unfolding find_postgres_bin_path_def base_paths_def b1_def [symmetric]
    by (auto simp del: sort_key_simps)
next
  fix p assume some: "find_postgres_bin_path w = Some p"
  from find_in_base_paths_Some [OF some [unfolded find_postgres_bin_path_def]]
  obtain b ds where b: "b \<in> set base_paths" "path_exists w b" "listdir w b = Some ds"
    and found: "find_in_versions w b (sorted_versions w b ds) = Some p"
    by blast
  from find_in_versions_greatest [OF sorted_versions_props(1) found]
  obtain v where v: "v \<in> set (sorted_versions w b ds)" "p = bin_path b v" "has_psql w b v"
    "\<forall>v' \<in> set (sorted_versions w b ds). has_psql w b v' \<longrightarrow> v' \<le> v"
    by blast
  from v(2,3) show "path_exists w p" "path_exists w (path_join p ''psql.exe'')"
    by (simp_all add: has_psql_def)
  from b v show "\<exists>b \<in> set base_paths. \<exists>ds. \<exists>v \<in> set ds.
                 path_exists w b \<and> listdir w b = Some ds \<and> path_isdir w (path_join b v)
               \<and> p = bin_path b v
               \<and> (\<forall>v' \<in> set ds. path_isdir w (path_join b v') \<and> has_psql w b v' \<longrightarrow> v' \<le> v)"
    unfolding sorted_versions_props(2) by blast
next
  fix b ds v
  assume none: "find_postgres_bin_path w = None" and b: "b \<in> set base_paths"
    and r: "path_exists w b \<and> listdir w b = Some ds" and v: "v \<in> set ds"
    and d: "path_isdir w (path_join b v)"
  from find_in_base_paths_None [OF none [unfolded find_postgres_bin_path_def] b] r
  have "find_in_versions w b (sorted_versions w b ds) = None" by blast
  with v d show "\<not> has_psql w b v"
    by (auto simp: find_in_versions_None sorted_versions_props(2))
qed

theorem find_postgres_bin_path_string_order_witness:
  "find_postgres_bin_path old_and_new = Some (bin_path postgres_base ''9'')
   \<and> path_exists old_and_new (path_join (bin_path postgres_base ''9'') ''psql.exe'')
   \<and> find_postgres_bin_path without_psql = None
   \<and> \<not> has_psql without_psql postgres_base ''16''"
proof -
  note order = find_postgres_bin_path_string_order [of old_and_new, folded postgres_base_def]
  note absent = find_postgres_bin_path_string_order [of without_psql, folded postgres_base_def]
  have "path_exists old_and_new postgres_base
      \<and> (listdir old_and_new postgres_base = Some [''9'', ''16'']
         \<or> listdir old_and_new postgres_base = Some [''16'', ''9''])
      \<and> path_isdir old_and_new (path_join postgres_base ''9'')
      \<and> path_isdir old_and_new (path_join postgres_base ''16'')
      \<and> has_psql old_and_new postgres_base ''9''"
    by (simp add: old_and_new_def quiet_world_def has_psql_def)
  with order have found: "find_postgres_bin_path old_and_new = Some (bin_path postgres_base ''9'')"
    by (rule conjunct1 [THEN mp])
  from order have "\<forall>p. find_postgres_bin_path old_and_new = Some p \<longrightarrow>
      path_exists old_and_new p \<and> path_exists old_and_new (path_join p ''psql.exe'')
      \<and> (\<exists>b \<in> set base_paths. \<exists>ds. \<exists>v \<in> set ds.
            path_exists old_and_new b \<and> listdir old_and_new b = Some ds
          \<and> path_isdir old_and_new (path_join b v) \<and> p = bin_path b v
          \<and> (\<forall>v' \<in> set ds. path_isdir old_and_new (path_join b v')
                \<and> has_psql old_and_new b v' \<longrightarrow> v' \<le> v))"
    by (rule conjunct2 [THEN conjunct1])
  with found have psql: "path_exists old_and_new (path_join (bin_path postgres_base ''9'') ''psql.exe'')"
    by blast
  have none: "find_postgres_bin_path without_psql = None"
    by (simp add: find_postgres_bin_path_def base_paths_def without_psql_def quiet_world_def
        postgres_base_def sorted_versions_def has_psql_def bin_path_def path_join_def bs_def)
  have base: "postgres_base \<in> set base_paths"
    by (simp add: base_paths_def postgres_base_def)
  have dir: "path_exists without_psql postgres_base
      \<and> listdir without_psql postgres_base = Some [''16'']"
    "path_isdir without_psql (path_join postgres_base ''16'')"
    by (simp_all add: without_psql_def quiet_world_def)
  from absent none have "\<forall>b \<in> set base_paths. \<forall>ds.
      path_exists without_psql b \<and> listdir without_psql b = Some ds \<longrightarrow>
      (\<forall>v \<in> set ds. path_isdir without_psql (path_join b v) \<longrightarrow> \<not> has_psql without_psql b v)"
    by (rule conjunct2 [THEN conjunct2, THEN mp])
  with base dir have "\<not> has_psql without_psql postgres_base ''16''"
    by auto
  with found psql none show ?thesis by blast
qed

subsection \<open>The existence check of the database step\<close>

text \<open>In \<^verbatim>\<open>windows_installer.py\<close> the check is the catalog query: once connected, the step
  creates the database exactly when no database of the catalog has the configured
  name.\<close>

lemma wi_setup_database_exact_match:
  assumes "\<not> io_fails w ''import psycopg2''" "\<not> io_fails w ''connect''"
    "\<not> io_fails w select_db_stmt" "\<not> io_fails w (create_db_stmt (self m))"
  shows "fst (wi_setup_database w m) = Ret True"
    and "acts (snd (wi_setup_database w m)) =
           acts m @ [Sql ''connect'', Sql select_db_stmt]
             @ (if db_name (self m) \<in> set (catalog w) then [] else [Sql (create_db_stmt (self m))])"
  using assms
  by (simp_all add: wi_setup_database_def wi_setup_database_connect_def
      wi_setup_database_try_def case_prod_beta Let_def)

text \<open>In \<^verbatim>\<open>windows_installer_fixed.py\<close> the check is \<^verbatim>\<open>self.db_name not in result.stdout\<close>:
  the create command is issued exactly when the configured name is no piece of the
  listing that \<^verbatim>\<open>psql -lqt\<close> wrote.\<close>

lemma wif_ensure_database_substring:
  assumes "proc w (nproc m) = Completed 0 out err"
  shows "commands (trace (snd (wif_ensure_database w m))) =
           commands (trace m) @ check_db_cmd (self m)
             # (if str_in (db_name (self m)) out then [] else [create_db_cmd (self m)])"
  using assms
  by (simp add: wif_ensure_database_def wif_create_env_file_def case_prod_beta
      split: res.splits)

text \<open>C2. The database step of \<^verbatim>\<open>windows_installer_fixed.py\<close> on a server whose catalog
  holds \<^verbatim>\<open>courier_cms_archive\<close> and \<^verbatim>\<open>postgres\<close>: no database is named \<^verbatim>\<open>courier_cms\<close>, and
  yet the step starts the connection test and the listing only, no create command, and
  returns \<^verbatim>\<open>True\<close>.\<close>

theorem wif_setup_database_skips_create_on_similar_name:
  "db_name wif_init \<notin> set (catalog similar_name)
   \<and> fst (wif_setup_database similar_name (start wif_init)) = Ret True
   \<and> commands (trace (snd (wif_setup_database similar_name (start wif_init)))) =
       [test_conn_cmd wif_init, check_db_cmd wif_init]"
proof -
  have listing: "str_in ''courier_cms'' (psql_lqt [''courier_cms_archive'', ''postgres''])"
    by (simp add: psql_lqt_def lqt_row_def)
  have "fst (wif_setup_database_try similar_name
               (print ''Setting up PostgreSQL database...'' (start wif_init))) = Ret True
      \<and> commands (trace (snd (wif_setup_database_try similar_name
               (print ''Setting up PostgreSQL database...'' (start wif_init))))) =
          [test_conn_cmd wif_init, check_db_cmd wif_init]"
    using listing
    by (simp add: wif_setup_database_try_def wif_ensure_database_def wif_create_env_file_def
        case_prod_beta Let_def similar_name_def quiet_world_def start_def wif_init_def)
  then show ?thesis
    by (simp add: wif_setup_database_wrap(2) similar_name_def quiet_world_def wif_init_def)
qed

subsection \<open>Elevation\<close>

lemma check_node_installed_prints [simp]:
  "fst (check_node_installed w (prints ls m)) = fst (check_node_installed w m)"
  by (simp add: check_node_installed_result cong: res.case_cong)

lemma wi_run_installation_unprivileged:
  assumes "\<not> is_admin w" "fst (check_node_installed w m) = Ret False"
  shows "fst (wi_run_installation w m) = Ret False"
    and "trace (snd (wi_run_installation w m)) =
           trace (snd (check_node_installed w
              (prints [replicate 60 (CHR ''=''), ''Courier Management System - Windows Installer'',
                       replicate 60 (CHR ''='')] m)))
           @ [Print ''Administrator privileges required for Node.js installation'',
              Print ''Restarting with administrator privileges...'',
              ShellExecute ''runas'' (executable w) (join_blank (argv w))]"
    and "nask (snd (wi_run_installation w m)) =
           nask (snd (check_node_installed w
              (prints [replicate 60 (CHR ''=''), ''Courier Management System - Windows Installer'',
                       replicate 60 (CHR ''='')] m)))"
  using assms
  by (simp_all add: wi_run_installation_def wi_run_as_admin_def and_then_def)

lemma wic_run_as_admin_unprivileged:
  assumes "\<not> is_admin w"
  shows "fst (wic_run_as_admin w m) = Ret False"
    and "acts (snd (wic_run_as_admin w m)) =
           acts m @ (if io_fails w ''ShellExecuteW'' then []
                     else [ShellExecute ''runas'' (executable w) (quoted_args (argv w))])"
  using assms by (simp_all add: wic_run_as_admin_def Let_def)

text \<open>C3, as the scripts have it. When the process lacks administrator rights:
  the \<^verbatim>\<open>__main__\<close> block of \<^verbatim>\<open>windows_installer_complete.py\<close> starts the interpreter again
  with the quoted original arguments under the verb \<^verbatim>\<open>runas\<close> (unless that call raises),
  does nothing else and ends the process with status 1; and in \<^verbatim>\<open>windows_installer.py\<close>,
  when the probe for Node.js fails, \<^verbatim>\<open>main\<close> starts the interpreter again with the
  original arguments under \<^verbatim>\<open>runas\<close>, after which it only waits for the Enter key and
  ends the process with status 1.\<close>

theorem elevation_hands_over_and_exits_1:
  assumes "\<not> is_admin w"
  shows "fst (wic_main w m) = 1
       \<and> acts (snd (wic_main w m)) =
           acts m @ (if io_fails w ''ShellExecuteW'' then []
                     else [ShellExecute ''runas'' (executable w) (quoted_args (argv w))])
       \<and> (fst (check_node_installed w m) = Ret False \<longrightarrow>
             fst (wi_main w m) = 1
           \<and> trace (snd (wi_main w m)) =
               trace (snd (check_node_installed w
                  (prints [replicate 60 (CHR ''=''),
                           ''Courier Management System - Windows Installer'',
                           replicate 60 (CHR ''='')] m)))
               @ [Print ''Administrator privileges required for Node.js installation'',
                  Print ''Restarting with administrator privileges...'',
                  ShellExecute ''runas'' (executable w) (join_blank (argv w)),
                  Ask (nl @ ''Installation failed. Press Enter to exit...'')])"
proof -
  have complete: "fst (wic_main w m) = 1
      \<and> acts (snd (wic_main w m)) =
           acts m @ (if io_fails w ''ShellExecuteW'' then []
                     else [ShellExecute ''runas'' (executable w) (quoted_args (argv w))])"
    using wic_run_as_admin_unprivileged [OF assms, of m]
    by (simp add: wic_main_def case_prod_beta)
  have plain: "fst (wi_main w m) = 1
      \<and> trace (snd (wi_main w m)) =
               trace (snd (check_node_installed w
                  (prints [replicate 60 (CHR ''=''),
                           ''Courier Management System - Windows Installer'',
                           replicate 60 (CHR ''='')] m)))
               @ [Print ''Administrator privileges required for Node.js installation'',
                  Print ''Restarting with administrator privileges...'',
                  ShellExecute ''runas'' (executable w) (join_blank (argv w)),
                  Ask (nl @ ''Installation failed. Press Enter to exit...'')]"
    if "fst (check_node_installed w m) = Ret False"
    using wi_run_installation_unprivileged [OF assms that]
    by (simp add: wi_main_def case_prod_beta)
  from complete plain show ?thesis by blast
qed

theorem elevation_hands_over_and_exits_1_witness:
  "fst (wic_main unprivileged (start wic_init)) = 1
   \<and> acts (snd (wic_main unprivileged (start wic_init))) =
       [ShellExecute ''runas'' ''python.exe'' (dq @ ''windows_installer.py'' @ dq)]
   \<and> fst (wi_main unprivileged (start wi_init)) = 1
   \<and> acts (snd (wi_main unprivileged (start wi_init))) =
       [Run ''node --version'' None,
        ShellExecute ''runas'' ''python.exe'' ''windows_installer.py'',
        Ask (nl @ ''Installation failed. Press Enter to exit...'')]"
proof -
  have admin: "\<not> is_admin unprivileged"
    by (simp add: is_admin_def unprivileged_def)
  have probe: "fst (check_node_installed unprivileged (start wi_init)) = Ret False"
    by (simp add: check_node_installed_result unprivileged_def nothing_installed_def
        quiet_world_def start_def)
  have probe_trace: "trace (snd (check_node_installed unprivileged m)) =
      trace m @ [Run ''node --version'' (environ m ''PGPASSWORD'')]" for m
    by (rule probe_trace_on_failure(1))
      (simp add: unprivileged_def nothing_installed_def quiet_world_def)
  from elevation_hands_over_and_exits_1 [OF admin, of "start wic_init"]
  have "fst (wic_main unprivileged (start wic_init)) = 1
    \<and> acts (snd (wic_main unprivileged (start wic_init))) =
       [ShellExecute ''runas'' ''python.exe'' (dq @ ''windows_installer.py'' @ dq)]"
    by (simp add: unprivileged_def nothing_installed_def quiet_world_def start_def
        quoted_args_def)
  moreover from elevation_hands_over_and_exits_1 [OF admin, of "start wi_init"] probe
  have "fst (wi_main unprivileged (start wi_init)) = 1
   \<and> acts (snd (wi_main unprivileged (start wi_init))) =
       [Run ''node --version'' None,
        ShellExecute ''runas'' ''python.exe'' ''windows_installer.py'',
        Ask (nl @ ''Installation failed. Press Enter to exit...'')]"
    by (simp add: probe_trace) (simp add: unprivileged_def nothing_installed_def
        quiet_world_def start_def)
  ultimately show ?thesis by blast
qed

text \<open>The claim as the specification words it, with exit status 0, fails on this
  run of either script.\<close>

theorem elevation_exit_status_counterexample:
  "\<not> is_admin unprivileged
   \<and> ShellExecute ''runas'' ''python.exe'' ''windows_installer.py''
       \<in> set (trace (snd (wi_main unprivileged (start wi_init))))
   \<and> fst (wi_main unprivileged (start wi_init)) \<noteq> 0
   \<and> ShellExecute ''runas'' ''python.exe'' (dq @ ''windows_installer.py'' @ dq)
       \<in> set (trace (snd (wic_main unprivileged (start wic_init))))
   \<and> fst (wic_main unprivileged (start wic_init)) \<noteq> 0"
proof -
  have probe: "fst (check_node_installed unprivileged (start wi_init)) = Ret False"
    by (simp add: check_node_installed_result unprivileged_def nothing_installed_def
        quiet_world_def start_def)
  have admin: "\<not> is_admin unprivileged"
    by (simp add: is_admin_def unprivileged_def)
  have "fst (wi_main unprivileged (start wi_init)) = 1
      \<and> ShellExecute ''runas'' ''python.exe'' ''windows_installer.py''
          \<in> set (trace (snd (wi_main unprivileged (start wi_init))))"
    using wi_run_installation_unprivileged [OF admin probe]
    by (simp add: wi_main_def case_prod_beta)
      (simp add: unprivileged_def nothing_installed_def quiet_world_def)
  moreover have "fst (wic_main unprivileged (start wic_init)) = 1
      \<and> ShellExecute ''runas'' ''python.exe'' (dq @ ''windows_installer.py'' @ dq)
          \<in> set (trace (snd (wic_main unprivileged (start wic_init))))"
    using admin
    by (simp add: wic_main_def wic_run_as_admin_def case_prod_beta Let_def quoted_args_def)
      (simp add: unprivileged_def nothing_installed_def quiet_world_def)
  ultimately show ?thesis using admin by simp
qed

subsection \<open>The install methods for Node.js\<close>



lemma run_result_caught:
  "run_result True p = Raise e \<Longrightarrow> is_Exception e \<and> is_CalledProcessError_or_FileNotFoundError e"
  by (cases p) (auto split: if_splits)



lemma wic_add_to_path_try_simps [simp]:
  "self (snd (wic_add_to_path_try w p m)) = self m"
  "nproc (snd (wic_add_to_path_try w p m)) = nproc m"
  "nask (snd (wic_add_to_path_try w p m)) = nask m"
  "files (snd (wic_add_to_path_try w p m)) = files m"
  "ran (snd (wic_add_to_path_try w p m)) = ran m"
  "asked (snd (wic_add_to_path_try w p m)) = asked m"
  "commands (trace (snd (wic_add_to_path_try w p m))) = commands (trace m)"
  by (simp_all add: wic_add_to_path_try_def and_then_def Let_def split: option.splits)

lemma wic_add_to_path_try_no_exit:
  "fst (wic_add_to_path_try w p m) = Raise e \<Longrightarrow> is_Exception e"
  by (auto simp add: wic_add_to_path_try_def and_then_def Let_def
      split: option.splits if_splits)

lemma wic_add_to_path_simps [simp]:
  "fst (wic_add_to_path w p m) = Ret ()"
  "self (snd (wic_add_to_path w p m)) = self m"
  "nproc (snd (wic_add_to_path w p m)) = nproc m"
  "nask (snd (wic_add_to_path w p m)) = nask m"
  "files (snd (wic_add_to_path w p m)) = files m"
  "ran (snd (wic_add_to_path w p m)) = ran m"
  "asked (snd (wic_add_to_path w p m)) = asked m"
  "commands (trace (snd (wic_add_to_path w p m))) = commands (trace m)"
  using wic_add_to_path_try_no_exit [of w p m]
  by (auto simp add: wic_add_to_path_def case_prod_beta split: res.splits)









lemma wic_install_node_download_try_simps [simp]:
  "nproc (snd (wic_install_node_download_try w m)) = nproc m"
  "nask (snd (wic_install_node_download_try w m)) = nask m"
  "self (snd (wic_install_node_download_try w m)) = self m"
  "commands (trace (snd (wic_install_node_download_try w m))) = commands (trace m)"
  by (simp_all add: wic_install_node_download_try_def and_then_def Let_def split: option.splits)

lemma wic_install_node_cleanup_simps [simp]:
  "nproc (snd (wic_install_node_cleanup w x)) = nproc (snd x)"
  "nask (snd (wic_install_node_cleanup w x)) = nask (snd x)"
  "self (snd (wic_install_node_cleanup w x)) = self (snd x)"
  "environ (snd (wic_install_node_cleanup w x)) = environ (snd x)"
  "commands (trace (snd (wic_install_node_cleanup w x))) = commands (trace (snd x))"
  by (simp_all add: wic_install_node_cleanup_def case_prod_beta)

lemma wic_install_node_download_simps [simp]:
  "nproc (snd (wic_install_node_download w m)) = nproc m"
  "nask (snd (wic_install_node_download w m)) = nask m"
  "self (snd (wic_install_node_download w m)) = self m"
  "commands (trace (snd (wic_install_node_download w m))) = commands (trace m)"
  by (simp_all add: wic_install_node_download_def wic_install_node_except_def split: res.splits)

lemma wic_install_node_windows_simps [simp]:
  "nproc (snd (wic_install_node_windows w m)) = Suc (nproc m)"
  "nask (snd (wic_install_node_windows w m)) = nask m"
  "self (snd (wic_install_node_windows w m)) = self m"
  "commands (trace (snd (wic_install_node_windows w m))) = commands (trace m) @ [winget_node_cmd]"
proof -
  consider r where "run_result True (proc w (nproc m)) = Ret r"
    | e where "run_result True (proc w (nproc m)) = Raise e"
        "is_CalledProcessError_or_FileNotFoundError e"
    using run_result_caught by (cases "run_result True (proc w (nproc m))") auto
  then have "nproc (snd (wic_install_node_windows w m)) = Suc (nproc m)
      \<and> nask (snd (wic_install_node_windows w m)) = nask m
      \<and> self (snd (wic_install_node_windows w m)) = self m
      \<and> commands (trace (snd (wic_install_node_windows w m))) =
          commands (trace m) @ [winget_node_cmd]"
    by cases (simp_all add: wic_install_node_windows_def case_prod_beta Let_def)
  then show
    "nproc (snd (wic_install_node_windows w m)) = Suc (nproc m)"
    "nask (snd (wic_install_node_windows w m)) = nask m"
    "self (snd (wic_install_node_windows w m)) = self m"
    "commands (trace (snd (wic_install_node_windows w m))) = commands (trace m) @ [winget_node_cmd]"
    by simp_all
qed

lemma wic_check_postgres_installed_simps [simp]:
  "nproc (snd (wic_check_postgres_installed w m)) = Suc (nproc m)"
  "nask (snd (wic_check_postgres_installed w m)) = nask m"
  "self (snd (wic_check_postgres_installed w m)) = self m"
  "commands (trace (snd (wic_check_postgres_installed w m))) =
     commands (trace m) @ [''psql --version'']"
  by (simp_all add: wic_check_postgres_installed_def case_prod_beta split: res.splits)


lemma wic_install_postgres_windows_commands [simp]:
  "commands (trace (snd (wic_install_postgres_windows w m))) =
     commands (trace m) @ [winget_postgres_cmd]"
proof -
  consider r where "run_result True (proc w (nproc m)) = Ret r"
    | e where "run_result True (proc w (nproc m)) = Raise e"
        "is_CalledProcessError_or_FileNotFoundError e"
    using run_result_caught by (cases "run_result True (proc w (nproc m))") auto
  then show ?thesis
  proof cases
    case 1
    then show ?thesis
      by (cases "strip (answer w (nask m)) = []")
        (simp_all add: wic_install_postgres_windows_def case_prod_beta Let_def and_then_def
          split: option.splits)
  next
    case 2
    then show ?thesis
      by (cases "strip (answer w (nask m)) = []")
        (simp_all add: wic_install_postgres_windows_def case_prod_beta Let_def)
  qed
qed

subsection \<open>The steps after the dependencies in \<^verbatim>\<open>windows_installer_complete.py\<close>\<close>

lemma wic_setup_database_commands [simp]:
  "commands (trace (snd (wic_setup_database w m))) = commands (trace m) @ [createdb_cmd (self m)]"
proof -
  obtain rc out err
    where "shell_outcome (createdb_cmd (self m)) (proc w (nproc m)) = Completed rc out err"
    using shell_outcome_Completed by blast
  from wic_setup_database_trace(2) [OF this] show ?thesis by simp
qed

lemma wic_set_environment_variables_commands [simp]:
  "commands (trace (snd (wic_set_environment_variables w m))) = commands (trace m)"
  by (simp add: wic_set_environment_variables_def case_prod_beta Let_def split: res.splits)

lemma wic_install_dependencies_commands [simp]:
  "commands (trace (snd (wic_install_dependencies w m))) = commands (trace m) @ [''npm install'']"
  by (simp add: wic_install_dependencies_def case_prod_beta split: res.splits)

lemma wic_setup_database_schema_commands [simp]:
  "commands (trace (snd (wic_setup_database_schema w m))) =
     commands (trace m) @ [''npm run db:push'']"
  by (simp add: wic_setup_database_schema_def case_prod_beta Let_def split: res.splits)

lemma wic_start_application_commands [simp]:
  "commands (trace (snd (wic_start_application w m))) = commands (trace m) @ [''npm run dev'']"
  by (simp add: wic_start_application_def case_prod_beta Let_def split: res.splits)

lemma and_then_commands_grow:
  assumes "prefix t (commands (trace (snd x)))"
    and "\<And>a. prefix (commands (trace (snd x))) (commands (trace (snd (f a (snd x)))))"
  shows "prefix t (commands (trace (snd (and_then x f))))"
proof (cases "fst x")
  case (Ret a)
  with assms(1) assms(2) [of a] show ?thesis
    by (auto simp add: and_then_def intro: prefix_order.trans)
next
  case (Raise e)
  with assms(1) show ?thesis by (simp add: and_then_def)
qed

lemma wic_run_installation_rest_grows:
  "prefix (commands (trace m)) (commands (trace (snd (wic_run_installation_rest w m))))"
  unfolding wic_run_installation_rest_def
  apply (rule and_then_commands_grow, simp)
  subgoal for db
    apply (cases db; simp)
    apply (rule and_then_commands_grow, simp)
    subgoal for env
      apply (cases env; simp)
      apply (rule and_then_commands_grow, simp)
      subgoal for deps
        apply (cases deps; simp)
        apply (rule and_then_commands_grow, simp)
        subgoal for schema
          apply (cases schema; simp add: Let_def case_prod_beta)
          apply (intro conjI impI and_then_commands_grow; simp)
          done
        done
      done
    done
  done

lemma wic_ensure_postgres_first:
  "prefix (commands (trace m) @ [''psql --version''])
     (commands (trace (snd (wic_ensure_postgres w m))))"
  unfolding wic_ensure_postgres_def
  apply (rule and_then_commands_grow, simp)
  subgoal for pg
    apply (cases pg; simp)
     apply (rule prefix_order.trans [OF _ wic_run_installation_rest_grows], simp)
    apply (rule and_then_commands_grow, simp)
    subgoal for installed
      apply (cases installed; simp)
      apply (rule prefix_order.trans [OF _ wic_run_installation_rest_grows], simp)
      done
    done
  done




subsection \<open>What follows a failed probe\<close>

lemma commands_mono_prefix: "prefix xs ys \<Longrightarrow> prefix (commands xs) (commands ys)"
  by (auto simp: prefix_def)

lemma commands_acts [simp]: "commands (filter (\<lambda>e. \<not> is_Print e) xs) = commands xs"
  by (induction xs rule: commands.induct) simp_all

lemma probe_machine_on_failure:
  assumes "\<not> exits_zero (proc w (nproc m))"
  shows "commands (trace (snd (check_node_installed w m))) = commands (trace m) @ [''node --version'']"
    and "commands (trace (snd (wif_check_node_installed w m))) =
           commands (trace m) @ [''node --version'']"
    and "fst (check_node_installed w m) = Ret False"
    and "fst (wif_check_node_installed w m) = Ret False"
    and "fst (wic_check_postgres_installed w m) = Ret False"
proof -
  from assms have down: "\<And>r. run_result True (proc w (nproc m)) \<noteq> Ret r"
    by (cases "proc w (nproc m)") (auto simp: exits_zero_def)
  from probe_trace_on_failure [OF this]
  show "commands (trace (snd (check_node_installed w m))) = commands (trace m) @ [''node --version'']"
    "commands (trace (snd (wif_check_node_installed w m))) = commands (trace m) @ [''node --version'']"
    by simp_all
  from down show "fst (check_node_installed w m) = Ret False"
    "fst (wif_check_node_installed w m) = Ret False"
    "fst (wic_check_postgres_installed w m) = Ret False"
    by (simp_all add: check_node_installed_result wif_check_node_installed_result
        wic_check_postgres_installed_result split: res.splits)
qed

lemma wic_ensure_postgres_grows:
  "prefix (commands (trace m)) (commands (trace (snd (wic_ensure_postgres w m))))"
  using wic_ensure_postgres_first [of m w] by (rule append_prefixD)

lemma wic_run_installation_installs:
  assumes "\<not> exits_zero (proc w (nproc m))"
  shows "prefix (commands (trace m) @ [''node --version'', winget_node_cmd])
           (commands (trace (snd (wic_run_installation w m))))"
proof -
  let ?start = "prints [''Starting Courier Management System Installation...'',
                        replicate 60 (CHR ''='')] m"
  let ?probed = "snd (check_node_installed w ?start)"
  have fails: "\<not> exits_zero (proc w (nproc ?start))" using assms by simp
  note probe = probe_machine_on_failure(1,3) [OF fails]
  have run: "wic_run_installation w m =
      and_then (wic_install_node_windows w ?probed)
        (\<lambda>installed m2.
           if \<not> installed then
             (Ret False, print ''Node.js installation failed. Exiting...'' m2)
           else wic_ensure_postgres w m2)"
    unfolding wic_run_installation_def by (simp add: and_then_simps(1) [OF probe(2)])
  show ?thesis
    unfolding run
  proof (rule and_then_commands_grow)
    show "prefix (commands (trace m) @ [''node --version'', winget_node_cmd])
        (commands (trace (snd (wic_install_node_windows w ?probed))))"
      by (simp add: probe(1))
  next
    fix installed
    show "prefix (commands (trace (snd (wic_install_node_windows w ?probed))))
        (commands (trace (snd (if \<not> installed
           then (Ret False, print ''Node.js installation failed. Exiting...''
                   (snd (wic_install_node_windows w ?probed)))
           else wic_ensure_postgres w (snd (wic_install_node_windows w ?probed))))))"
      using wic_ensure_postgres_grows [of "snd (wic_install_node_windows w ?probed)" w]
      by (cases installed) simp_all
  qed
qed

lemma wic_ensure_postgres_installs:
  assumes "\<not> exits_zero (proc w (nproc m))"
  shows "prefix (commands (trace m) @ [''psql --version'', winget_postgres_cmd])
           (commands (trace (snd (wic_ensure_postgres w m))))"
proof -
  let ?probed = "snd (wic_check_postgres_installed w m)"
  note probe = probe_machine_on_failure(5) [OF assms]
  have run: "wic_ensure_postgres w m =
      and_then (wic_install_postgres_windows w ?probed)
        (\<lambda>installed m2.
           if \<not> installed then
             (Ret False, print ''PostgreSQL installation failed. Exiting...'' m2)
           else wic_run_installation_rest w m2)"
    unfolding wic_ensure_postgres_def by (simp add: and_then_simps(1) [OF probe])
  show ?thesis
    unfolding run
  proof (rule and_then_commands_grow)
    show "prefix (commands (trace m) @ [''psql --version'', winget_postgres_cmd])
        (commands (trace (snd (wic_install_postgres_windows w ?probed))))"
      by simp
  next
    fix installed
    show "prefix (commands (trace (snd (wic_install_postgres_windows w ?probed))))
        (commands (trace (snd (if \<not> installed
           then (Ret False, print ''PostgreSQL installation failed. Exiting...''
                   (snd (wic_install_postgres_windows w ?probed)))
           else wic_run_installation_rest w (snd (wic_install_postgres_windows w ?probed))))))"
      using wic_run_installation_rest_grows [of "snd (wic_install_postgres_windows w ?probed)" w]
      by (cases installed) simp_all
  qed
qed

lemma wi_install_node_msi_try_grows:
  "prefix (trace m) (trace (snd (wi_install_node_msi_try w m)))"
  by (simp add: wi_install_node_msi_try_def case_prod_beta Let_def split: res.splits)

lemma wi_install_node_windows_first:
  "prefix (commands (trace m) @ [winget_node_cmd])
     (commands (trace (snd (wi_install_node_windows w m))))"
proof -
  let ?t = "trace m @ [Print ''Installing Node.js...'',
                       Run winget_node_cmd (environ m ''PGPASSWORD'')]"
  have "prefix ?t (trace (snd (wi_install_node_windows w m)))"
  proof (cases "run_result True (proc w (nproc m))")
    case (Ret r)
    then show ?thesis
      by (simp add: wi_install_node_windows_def case_prod_beta Let_def)
  next
    case (Raise e)
    let ?m3 = "print ''winget not available, downloading Node.js MSI...''
                 (snd (subprocess_run w winget_node_cmd True
                         (environ (print ''Installing Node.js...'' m))
                         (print ''Installing Node.js...'' m)))"
    have "prefix ?t (trace ?m3)" by simp
    also have "prefix (trace ?m3) (trace (snd (wi_install_node_msi_try w ?m3)))"
      by (rule wi_install_node_msi_try_grows)
    finally have grown: "prefix ?t (trace (snd (wi_install_node_msi_try w ?m3)))" .
    from Raise run_result_caught [OF Raise] grown show ?thesis
      by (simp add: wi_install_node_windows_def case_prod_beta Let_def split: res.splits)
  qed
  from commands_mono_prefix [OF this] show ?thesis by simp
qed

lemma check_node_installed_grows:
  "prefix (commands (trace m)) (commands (trace (snd (check_node_installed w m))))"
  by (cases "proc w (nproc m)"; cases "proc w (Suc (nproc m))")
    (simp_all add: check_node_installed_def case_prod_beta Let_def)

lemma wi_install_npm_dependencies_grows:
  "prefix (commands (trace m)) (commands (trace (snd (wi_install_npm_dependencies w m))))"
  by (simp add: wi_install_npm_dependencies_def case_prod_beta Let_def split: res.splits)

lemma wi_setup_database_try_commands:
  "commands (trace (snd (wi_setup_database_try w m))) = commands (trace m)"
  by (simp add: wi_setup_database_try_def pg_def case_prod_beta Let_def)

lemma wi_setup_database_connect_commands:
  "commands (trace (snd (wi_setup_database_connect w m))) = commands (trace m)"
  by (simp add: wi_setup_database_connect_def wi_setup_database_except_def case_prod_beta
      wi_setup_database_try_commands split: res.splits exn.splits)

lemma wi_install_python_postgres_lib_grows:
  "prefix (commands (trace m)) (commands (trace (snd (wi_install_python_postgres_lib w m))))"
  by (simp add: wi_install_python_postgres_lib_def case_prod_beta Let_def split: res.splits)

lemma wi_setup_database_grows:
  "prefix (commands (trace m)) (commands (trace (snd (wi_setup_database w m))))"
  using wi_install_python_postgres_lib_grows
    [of "print (''Setting up PostgreSQL database '' @ sq @ db_name (self m) @ sq @ ''...'') m" w]
  by (simp add: wi_setup_database_def case_prod_beta Let_def wi_setup_database_connect_commands
      split: res.splits)

lemma wi_create_env_file_grows:
  "prefix (commands (trace m)) (commands (trace (snd (wi_create_env_file w m))))"
  by (simp add: wi_create_env_file_def)

lemma wi_run_database_migration_grows:
  "prefix (commands (trace m)) (commands (trace (snd (wi_run_database_migration w m))))"
  by (simp add: wi_run_database_migration_def case_prod_beta Let_def split: res.splits)

lemma wi_build_application_grows:
  "prefix (commands (trace m)) (commands (trace (snd (wi_build_application w m))))"
  by (simp add: wi_build_application_def case_prod_beta Let_def split: res.splits)

lemma popen_and_stream_commands:
  "commands (trace (snd (popen_and_stream w cmd m))) = commands (trace m)"
  by (simp add: popen_and_stream_def Let_def split: proc_outcome.splits)

lemma wi_start_application_grows:
  "prefix (commands (trace m)) (commands (trace (snd (wi_start_application w production m))))"
  unfolding wi_start_application_def
  by (rule and_then_commands_grow)
    (simp_all add: popen_and_stream_commands case_prod_beta Let_def split: res.splits)

lemma wi_create_batch_files_commands:
  "commands (trace (snd (wi_create_batch_files w production m))) = commands (trace m)"
  by (simp add: wi_create_batch_files_def and_then_def Let_def split: res.splits)

lemma if_grows:
  assumes "prefix t (commands (trace (snd a)))" "prefix t (commands (trace (snd b)))"
  shows "prefix t (commands (trace (snd (if c then a else b))))"
  using assms by simp

lemma wi_run_installation_rest_grows:
  "prefix (commands (trace m)) (commands (trace (snd (wi_run_installation_rest w m))))"
  unfolding wi_run_installation_rest_def
  apply (rule and_then_commands_grow)
   apply (rule prefix_order.trans [OF _ wi_install_npm_dependencies_grows], simp add: banner_def)
  subgoal for deps
    apply (cases deps; simp)
    apply (rule and_then_commands_grow)
     apply (rule prefix_order.trans [OF _ wi_setup_database_grows], simp add: banner_def)
    subgoal for db
      apply (cases db; simp)
      apply (rule and_then_commands_grow, rule wi_create_env_file_grows)
      subgoal for env
        apply (cases env; simp)
        apply (rule and_then_commands_grow, rule wi_run_database_migration_grows)
        subgoal for mig
          apply (rule and_then_commands_grow)
           apply (rule prefix_order.trans [OF _ wi_build_application_grows],
              simp add: banner_def)
          subgoal for production
            apply (simp only: Let_def case_prod_beta)
            apply (rule if_grows)
             apply (rule and_then_commands_grow)
              apply (rule prefix_order.trans [OF _ wi_start_application_grows],
                simp add: banner_def)
             apply simp
            apply (rule and_then_commands_grow)
             apply (simp add: wi_create_batch_files_commands banner_def)
            apply simp
            done
          done
        done
      done
    done
  done

lemma wi_run_installation_installs:
  assumes "\<not> exits_zero (proc w (nproc m))" "is_admin w"
  shows "prefix (commands (trace m) @ [''node --version'', winget_node_cmd])
           (commands (trace (snd (wi_run_installation w m))))"
proof -
  let ?start = "prints [replicate 60 (CHR ''=''),
                        ''Courier Management System - Windows Installer'',
                        replicate 60 (CHR ''='')] m"
  let ?probed = "snd (check_node_installed w ?start)"
  let ?installed = "snd (wi_install_node_windows w ?probed)"
  have fails: "\<not> exits_zero (proc w (nproc ?start))" using assms by simp
  note probe = probe_machine_on_failure(1,3) [OF fails]
  have run: "wi_run_installation w m =
      and_then (wi_install_node_windows w ?probed)
        (\<lambda>installed m3.
           if \<not> installed then (Ret False, m3)
           else
             and_then (check_node_installed w m3)
               (\<lambda>node' m4.
                  if \<not> node' then
                    (let m5 = prints [''Node.js installation verification failed'',
                           ''Please restart in a new command prompt and run this script again'']
                                m4;
                         (a, m6) = ask w ''Press Enter to exit...'' m5
                     in (Ret False, m6))
                  else wi_run_installation_rest w m4))"
    unfolding wi_run_installation_def
    using assms(2) probe(2) by (simp add: and_then_def wi_run_as_admin_def)
  show ?thesis
    unfolding run
  proof (rule and_then_commands_grow)
    show "prefix (commands (trace m) @ [''node --version'', winget_node_cmd])
        (commands (trace (snd (wi_install_node_windows w ?probed))))"
      using wi_install_node_windows_first [of ?probed w] by (simp add: probe(1))
  next
    fix installed
    have "prefix (commands (trace ?installed))
        (commands (trace (snd (and_then (check_node_installed w ?installed)
               (\<lambda>node' m4.
                  if \<not> node' then
                    (let m5 = prints [''Node.js installation verification failed'',
                           ''Please restart in a new command prompt and run this script again'']
                                m4;
                         (a, m6) = ask w ''Press Enter to exit...'' m5
                     in (Ret False, m6))
                  else wi_run_installation_rest w m4)))))"
      apply (rule and_then_commands_grow, rule check_node_installed_grows)
      subgoal for node'
        using wi_run_installation_rest_grows [of "snd (check_node_installed w ?installed)" w]
        by (cases node') (simp_all add: Let_def case_prod_beta)
      done
    then show "prefix (commands (trace ?installed))
        (commands (trace (snd (if \<not> installed then (Ret False, ?installed)
           else
             and_then (check_node_installed w ?installed)
               (\<lambda>node' m4.
                  if \<not> node' then
                    (let m5 = prints [''Node.js installation verification failed'',
                           ''Please restart in a new command prompt and run this script again'']
                                m4;
                         (a, m6) = ask w ''Press Enter to exit...'' m5
                     in (Ret False, m6))
                  else wi_run_installation_rest w m4)))))"
      by (cases installed) simp_all
  qed
qed

lemma wi_run_installation_stops:
  assumes "\<not> exits_zero (proc w (nproc m))" "\<not> is_admin w"
  shows "fst (wi_run_installation w m) = Ret False"
    and "commands (trace (snd (wi_run_installation w m))) =
           commands (trace m) @ [''node --version'']"
proof -
  let ?start = "prints [replicate 60 (CHR ''=''),
                        ''Courier Management System - Windows Installer'',
                        replicate 60 (CHR ''='')] m"
  have fails: "\<not> exits_zero (proc w (nproc ?start))" using assms by simp
  note probe = probe_machine_on_failure(1,3) [OF fails]
  from probe(2) have absent: "fst (check_node_installed w m) = Ret False" by simp
  from wi_run_installation_unprivileged(1) [OF assms(2) absent]
  show "fst (wi_run_installation w m) = Ret False" .
  from wi_run_installation_unprivileged(2) [OF assms(2) absent] probe(1)
  show "commands (trace (snd (wi_run_installation w m))) =
           commands (trace m) @ [''node --version'']"
    by simp
qed

lemma wif_run_installation_stops:
  assumes "\<not> exits_zero (proc w (nproc m))"
    "path_exists w (path_join (project_dir (self m)) ''package.json'')"
  shows "fst (wif_run_installation w m) = Ret False"
    and "trace (snd (wif_run_installation w m)) =
           trace m @
           [Print (replicate 70 (CHR ''='')),
            Print ''Courier Management System - Windows Installer (FIXED v2)'',
            Print (replicate 70 (CHR ''='')),
            Run ''node --version'' (environ m ''PGPASSWORD''),
            Print ''Node.js not found. Please install Node.js first:'',
            Print ''   1. Go to https://nodejs.org/'',
            Print ''   2. Download and install Node.js LTS version'',
            Print ''   3. Restart this script'']"
proof -
  let ?start = "prints [replicate 70 (CHR ''=''),
                        ''Courier Management System - Windows Installer (FIXED v2)'',
                        replicate 70 (CHR ''='')] m"
  have fails: "\<not> exits_zero (proc w (nproc ?start))" using assms by simp
  then have down: "\<And>r. run_result True (proc w (nproc ?start)) \<noteq> Ret r"
    by (cases "proc w (nproc m)") (auto simp: exits_zero_def)
  note probe = probe_machine_on_failure(4) [OF fails] probe_trace_on_failure(2) [OF down]
  have run: "wif_run_installation w m =
      (Ret False,
       prints [''Node.js not found. Please install Node.js first:'',
               ''   1. Go to https://nodejs.org/'',
               ''   2. Download and install Node.js LTS version'',
               ''   3. Restart this script''] (snd (wif_check_node_installed w ?start)))"
    unfolding wif_run_installation_def Let_def
    using assms(2) by (simp add: and_then_simps(1) [OF probe(1)])
  show "fst (wif_run_installation w m) = Ret False" unfolding run by simp
  show "trace (snd (wif_run_installation w m)) =
           trace m @
           [Print (replicate 70 (CHR ''='')),
            Print ''Courier Management System - Windows Installer (FIXED v2)'',
            Print (replicate 70 (CHR ''='')),
            Run ''node --version'' (environ m ''PGPASSWORD''),
            Print ''Node.js not found. Please install Node.js first:'',
            Print ''   1. Go to https://nodejs.org/'',
            Print ''   2. Download and install Node.js LTS version'',
            Print ''   3. Restart this script'']"
    unfolding run by (simp add: probe(2))
qed

text \<open>C8, as the scripts have it. For each of the probes (\<^verbatim>\<open>check_node_installed\<close> of the
  three scripts and \<^verbatim>\<open>check_postgres_installed\<close>): when the program is not found and when
  it is found but its version command ends with a return code other than zero, the probe
  returns \<^verbatim>\<open>False\<close>, having done nothing but start the version command; and the probe
  returns \<^verbatim>\<open>True\<close> only when the version command has run and ended with return code zero.
  What follows the answer \<^verbatim>\<open>False\<close> is the same in both cases, and differs from script to
  script. In \<^verbatim>\<open>windows_installer_complete.py\<close> the next child process of \<^verbatim>\<open>run_installation\<close>
  after the probe of Node.js is the \<^verbatim>\<open>winget\<close> installation of Node.js, and the next one
  after the probe of PostgreSQL is the \<^verbatim>\<open>winget\<close> installation of PostgreSQL. In
  \<^verbatim>\<open>windows_installer.py\<close> the next child process is the \<^verbatim>\<open>winget\<close> installation of Node.js
  when the process has administrator rights; without them \<^verbatim>\<open>run_installation\<close> returns
  \<^verbatim>\<open>False\<close> and has started no child process but the version command. In
  \<^verbatim>\<open>windows_installer_fixed.py\<close>, run where \<^verbatim>\<open>package.json\<close> is, \<^verbatim>\<open>run_installation\<close>
  installs nothing: it prints where to get Node.js and returns \<^verbatim>\<open>False\<close>.\<close>

theorem failed_probe_and_what_follows:
  fixes w :: world and m :: machine
  defines "absent \<equiv> proc w (nproc m) = NotFound"
    and "failing \<equiv> \<exists>rc out err. proc w (nproc m) = Completed rc out err \<and> rc \<noteq> 0"
    and "usable \<equiv> \<exists>out err. proc w (nproc m) = Completed 0 out err"
  shows "(absent \<or> failing \<longrightarrow>
            fst (check_node_installed w m) = Ret False
          \<and> fst (wif_check_node_installed w m) = Ret False
          \<and> fst (wic_check_postgres_installed w m) = Ret False
          \<and> trace (snd (check_node_installed w m)) =
              trace m @ [Run ''node --version'' (environ m ''PGPASSWORD'')]
          \<and> trace (snd (wif_check_node_installed w m)) =
              trace m @ [Run ''node --version'' (environ m ''PGPASSWORD'')]
          \<and> trace (snd (wic_check_postgres_installed w m)) =
              trace m @ [Run ''psql --version'' (environ m ''PGPASSWORD'')]
          \<and> prefix (commands (trace m) @ [''node --version'', winget_node_cmd])
              (commands (trace (snd (wic_run_installation w m))))
          \<and> prefix (commands (trace m) @ [''psql --version'', winget_postgres_cmd])
              (commands (trace (snd (wic_ensure_postgres w m))))
          \<and> (is_admin w \<longrightarrow>
                prefix (commands (trace m) @ [''node --version'', winget_node_cmd])
                  (commands (trace (snd (wi_run_installation w m)))))
          \<and> (\<not> is_admin w \<longrightarrow>
                fst (wi_run_installation w m) = Ret False
              \<and> commands (trace (snd (wi_run_installation w m))) =
                  commands (trace m) @ [''node --version''])
          \<and> (path_exists w (path_join (project_dir (self m)) ''package.json'') \<longrightarrow>
                fst (wif_run_installation w m) = Ret False
              \<and> trace (snd (wif_run_installation w m)) =
                  trace m @
                  [Print (replicate 70 (CHR ''='')),
                   Print ''Courier Management System - Windows Installer (FIXED v2)'',
                   Print (replicate 70 (CHR ''='')),
                   Run ''node --version'' (environ m ''PGPASSWORD''),
                   Print ''Node.js not found. Please install Node.js first:'',
                   Print ''   1. Go to https://nodejs.org/'',
                   Print ''   2. Download and install Node.js LTS version'',
                   Print ''   3. Restart this script'']))
       \<and> (fst (check_node_installed w m) = Ret True \<longrightarrow> usable)
       \<and> (fst (wif_check_node_installed w m) = Ret True \<longrightarrow> usable)
       \<and> (fst (wic_check_postgres_installed w m) = Ret True \<longrightarrow> usable)"
proof -
  have down: "\<And>r. run_result True (proc w (nproc m)) \<noteq> Ret r" if "absent \<or> failing"
    using that unfolding absent_def failing_def by auto
  have nz: "\<not> exits_zero (proc w (nproc m))" if "absent \<or> failing"
    using that unfolding absent_def failing_def exits_zero_def by auto
  have up: usable if "run_result True (proc w (nproc m)) = Ret r" for r
    using run_result_Ret [OF that] unfolding usable_def .
  show ?thesis
    apply (intro conjI impI)
    subgoal premises p by (rule probe_machine_on_failure(3) [OF nz [OF p]])
    subgoal premises p by (rule probe_machine_on_failure(4) [OF nz [OF p]])
    subgoal premises p by (rule probe_machine_on_failure(5) [OF nz [OF p]])
    subgoal premises p by (rule probe_trace_on_failure(1) [OF down [OF p]])
    subgoal premises p by (rule probe_trace_on_failure(2) [OF down [OF p]])
    subgoal premises p by (rule probe_trace_on_failure(3) [OF down [OF p]])
    subgoal premises p by (rule wic_run_installation_installs [OF nz [OF p]])
    subgoal premises p by (rule wic_ensure_postgres_installs [OF nz [OF p]])
    subgoal premises p by (rule wi_run_installation_installs [OF nz [OF p(1)] p(2)])
    subgoal premises p by (rule wi_run_installation_stops(1) [OF nz [OF p(1)] p(2)])
    subgoal premises p by (rule wi_run_installation_stops(2) [OF nz [OF p(1)] p(2)])
    subgoal premises p by (rule wif_run_installation_stops(1) [OF nz [OF p(1)] p(2)])
    subgoal premises p by (rule wif_run_installation_stops(2) [OF nz [OF p(1)] p(2)])
    subgoal premises p
      using p up by (auto simp: check_node_installed_result split: res.splits)
    subgoal premises p
      using p up by (auto simp: wif_check_node_installed_result split: res.splits)
    subgoal premises p
      using p up by (auto simp: wic_check_postgres_installed_result split: res.splits)
    done
qed

theorem failed_probe_and_what_follows_witness:
  "fst (check_node_installed nothing_installed (start wi_init)) = Ret False
   \<and> fst (check_node_installed everything_fails (start wi_init)) = Ret False
   \<and> fst (wic_check_postgres_installed nothing_installed (start wic_init)) = Ret False
   \<and> fst (wic_check_postgres_installed everything_fails (start wic_init)) = Ret False
   \<and> fst (wif_check_node_installed nothing_installed (start wif_init)) = Ret False
   \<and> fst (wif_check_node_installed everything_fails (start wif_init)) = Ret False
   \<and> prefix [''node --version'', winget_node_cmd]
       (commands (trace (snd (wic_run_installation nothing_installed (start wic_init)))))
   \<and> prefix [''node --version'', winget_node_cmd]
       (commands (trace (snd (wic_run_installation everything_fails (start wic_init)))))
   \<and> prefix [''psql --version'', winget_postgres_cmd]
       (commands (trace (snd (wic_ensure_postgres nothing_installed (start wic_init)))))
   \<and> prefix [''psql --version'', winget_postgres_cmd]
       (commands (trace (snd (wic_ensure_postgres everything_fails (start wic_init)))))
   \<and> prefix [''node --version'', winget_node_cmd]
       (commands (trace (snd (wi_run_installation nothing_installed (start wi_init)))))
   \<and> prefix [''node --version'', winget_node_cmd]
       (commands (trace (snd (wi_run_installation everything_fails (start wi_init)))))
   \<and> fst (wi_run_installation unprivileged (start wi_init)) = Ret False
   \<and> commands (trace (snd (wi_run_installation unprivileged (start wi_init)))) =
       [''node --version'']
   \<and> fst (wif_run_installation everything_fails (start wif_init)) = Ret False
   \<and> printed (trace (snd (wif_run_installation everything_fails (start wif_init)))) =
       [replicate 70 (CHR ''=''),
        ''Courier Management System - Windows Installer (FIXED v2)'',
        replicate 70 (CHR ''=''),
        ''Node.js not found. Please install Node.js first:'',
        ''   1. Go to https://nodejs.org/'',
        ''   2. Download and install Node.js LTS version'',
        ''   3. Restart this script'']
   \<and> fst (check_node_installed quiet_world (start wi_init)) = Ret True
   \<and> proc quiet_world 0 = Completed 0 [] []"
  using failed_probe_and_what_follows [of nothing_installed "start wi_init"]
    failed_probe_and_what_follows [of everything_fails "start wi_init"]
    failed_probe_and_what_follows [of nothing_installed "start wic_init"]
    failed_probe_and_what_follows [of everything_fails "start wic_init"]
    failed_probe_and_what_follows [of nothing_installed "start wif_init"]
    failed_probe_and_what_follows [of everything_fails "start wif_init"]
    failed_probe_and_what_follows [of unprivileged "start wi_init"]
    failed_probe_and_what_follows [of quiet_world "start wi_init"]
  by (simp add: nothing_installed_def everything_fails_def quiet_world_def unprivileged_def
      start_def is_admin_def wif_init_def check_node_installed_result)

text \<open>The claim as the specification words it, with an installation that goes on after
  every probe that answers \<^verbatim>\<open>False\<close>, fails on these runs. \<^verbatim>\<open>windows_installer.py\<close>, started
  without administrator rights on a machine whose \<^verbatim>\<open>node\<close> fails, returns \<^verbatim>\<open>False\<close> and has
  started no child process but \<^verbatim>\<open>node --version\<close>. \<^verbatim>\<open>windows_installer_fixed.py\<close>, on a
  machine without Node.js, does the same with or without these rights.\<close>

theorem failed_probe_without_installation_counterexample:
  "fst (check_node_installed (everything_fails\<lparr>admin := False\<rparr>) (start wi_init)) = Ret False
   \<and> fst (wi_run_installation (everything_fails\<lparr>admin := False\<rparr>) (start wi_init)) = Ret False
   \<and> commands (trace (snd (wi_run_installation (everything_fails\<lparr>admin := False\<rparr>)
        (start wi_init)))) = [''node --version'']
   \<and> fst (wif_check_node_installed nothing_installed (start wif_init)) = Ret False
   \<and> fst (wif_run_installation nothing_installed (start wif_init)) = Ret False
   \<and> commands (trace (snd (wif_run_installation nothing_installed (start wif_init)))) =
       [''node --version'']"
proof -
  let ?w = "everything_fails\<lparr>admin := False\<rparr>"
  have wi: "\<not> exits_zero (proc ?w (nproc (start wi_init)))" "\<not> is_admin ?w"
    by (simp_all add: everything_fails_def quiet_world_def exits_zero_def is_admin_def)
  have wif: "\<not> exits_zero (proc nothing_installed (nproc (start wif_init)))"
    "path_exists nothing_installed (path_join (project_dir (self (start wif_init))) ''package.json'')"
    by (simp_all add: nothing_installed_def quiet_world_def exits_zero_def)
  from probe_machine_on_failure(3) [OF wi(1)] wi_run_installation_stops [OF wi]
    probe_machine_on_failure(4) [OF wif(1)] wif_run_installation_stops [OF wif]
  show ?thesis by (simp add: start_def)
qed

subsection \<open>The \<^verbatim>\<open>.env\<close> file\<close>





end
